theory Spec2Isabelle
  imports Main "HOL-Library.Word" "HOL-Library.Char_ord" "HOL-Library.List_Lexorder"
begin

section \<open>Go values shared by both services\<close>

text \<open>
  A Go \<open>string\<close> and a \<open>[]byte\<close> are sequences of bytes: both are \<open>string\<close> here.
  A Go \<open>error\<close> is an interface value; \<open>nil\<close> is \<open>None\<close> of \<open>error option\<close>. The
  constructors are the errors this package can hand to its caller: the one it makes itself
  with \<open>errors.New\<close>, the two kinds \<open>json.Unmarshal\<close> reports, and errors made elsewhere
  (by the transport, by the JWT library, by whoever built the service).
\<close>

datatype error =
    errors_New string
  | SyntaxError string
  | UnmarshalTypeError string string
  | ForeignError string

fun Error :: "error \<Rightarrow> string" where
  "Error (errors_New s) = s"
| "Error (SyntaxError msg) = msg"
| "Error (UnmarshalTypeError v t) =
     ''json: cannot unmarshal '' @ v @ '' into Go value of type '' @ t"
| "Error (ForeignError msg) = msg"

text \<open>
  Every operation returns a pair \<open>(result, error)\<close> whose first component is a pointer or a
  slice (\<open>nil\<close> is \<open>None\<close>), unless it panics on a nil pointer: \<open>Rate\<close> reads the
  fields of the request it is given. The receiver of a method is taken to be a service, not
  a nil pointer.
\<close>

datatype 'a returned = Return "'a option" "error option" | Panic string

text \<open>
  A \<open>float64\<close>: \<open>Finite s m e\<close> is the number \<open>(-1)^s * m * 2^e\<close>, which covers every
  finite value of the type (normal, subnormal and both zeros); the other constructors are
  the infinities and NaN. No arithmetic is ever done on these values: they are compared
  with zero and printed.
\<close>

datatype float64 = Finite bool nat int | Inf bool | NaN

definition float64_zero :: float64 where
  "float64_zero = Finite False 0 0"

fun is_finite :: "float64 \<Rightarrow> bool" where
  "is_finite (Finite s m e) = True"
| "is_finite _ = False"

fun is_positive :: "float64 \<Rightarrow> bool" where
  "is_positive (Finite s m e) = (\<not> s \<and> 0 < m)"
| "is_positive (Inf s) = (\<not> s)"
| "is_positive NaN = False"

fun equals_zero :: "float64 \<Rightarrow> bool" where
  "equals_zero (Finite s m e) = (m = 0)"
| "equals_zero _ = False"

subsection \<open>strconv and fmt: printing with two decimals\<close>

definition digit_char :: "nat \<Rightarrow> char" where
  "digit_char d = char_of (48 + d)"

function Itoa :: "nat \<Rightarrow> string" where
  "Itoa n = (if n < 10 then [digit_char n] else Itoa (n div 10) @ [digit_char (n mod 10)])"
  by pat_completeness auto
termination
  by (relation "measure id") auto

declare Itoa.simps [simp del]

text \<open>
  \<open>q / d\<close> rounded to the nearest integer, an exact half going to the even neighbour:
  the rounding of \<open>strconv\<close>'s exact decimal conversion.
\<close>

definition round_half_even :: "nat \<Rightarrow> nat \<Rightarrow> nat" where
  "round_half_even q d =
     (let n = q div d; r = q mod d
      in if 2 * r < d then n
         else if d < 2 * r then n + 1
         else if even n then n else n + 1)"

definition hundredths :: "nat \<Rightarrow> int \<Rightarrow> nat" where
  "hundredths m e =
     (if 0 \<le> e then m * 100 * 2 ^ nat e
      else round_half_even (m * 100) (2 ^ nat (- e)))"

text \<open>\<open>fmt.Sprintf("%0.2f", x)\<close>: the flag \<open>0\<close> pads to a width, and none is given.\<close>

fun Sprintf_02f :: "float64 \<Rightarrow> string" where
  "Sprintf_02f (Finite s m e) =
     (let n = hundredths m e
      in (if s then ''-'' else '''') @ Itoa (n div 100) @ ''.''
           @ [digit_char (n mod 100 div 10), digit_char (n mod 10)])"
| "Sprintf_02f (Inf s) = (if s then ''-Inf'' else ''+Inf'')"
| "Sprintf_02f NaN = ''NaN''"

subsection \<open>net/url: Values, QueryEscape, Encode\<close>

text \<open>
  \<open>url.Values\<close> is a \<open>map[string][]string\<close>: an association list with distinct keys, a
  composite literal giving its entries in the order written.
\<close>

type_synonym Values = "(string \<times> string list) list"

fun Values_Add :: "Values \<Rightarrow> string \<Rightarrow> string \<Rightarrow> Values" where
  "Values_Add [] key v = [(key, [v])]"
| "Values_Add ((k, vs) # rest) key v =
     (if k = key then (k, vs @ [v]) # rest else (k, vs) # Values_Add rest key v)"

definition shouldEscape :: "char \<Rightarrow> bool" where
  "shouldEscape c =
     (let n = (of_char c :: nat)
      in \<not> ((97 \<le> n \<and> n \<le> 122) \<or> (65 \<le> n \<and> n \<le> 90) \<or> (48 \<le> n \<and> n \<le> 57)
             \<or> c = CHR ''-'' \<or> c = CHR ''_'' \<or> c = CHR ''.'' \<or> c = CHR ''~''))"

definition upperhex :: "nat \<Rightarrow> char" where
  "upperhex d = ''0123456789ABCDEF'' ! d"

fun QueryEscape :: "string \<Rightarrow> string" where
  "QueryEscape [] = []"
| "QueryEscape (c # cs) =
     (if c = CHR '' '' then CHR ''+'' # QueryEscape cs
      else if shouldEscape c
        then CHR ''%'' # upperhex (of_char c div 16) # upperhex (of_char c mod 16) # QueryEscape cs
      else c # QueryEscape cs)"

fun strings_Join :: "string list \<Rightarrow> string \<Rightarrow> string" where
  "strings_Join [] sep = []"
| "strings_Join [x] sep = x"
| "strings_Join (x # y # ys) sep = x @ sep @ strings_Join (y # ys) sep"

definition Values_Encode :: "Values \<Rightarrow> string" where
  "Values_Encode v =
     strings_Join
       (concat (map (\<lambda>(k, vs). map (\<lambda>x. QueryEscape k @ ''='' @ QueryEscape x) vs)
                    (sort_key fst v))) ''&''"

section \<open>encoding/json\<close>

text \<open>
  \<open>json.Unmarshal\<close> first checks that the whole input is one well-formed JSON value and
  then decodes it into the Go value it was given. Here the input is read into a tree (a
  syntax error is \<open>None\<close>) and the tree is decoded. A number keeps its literal text, as
  the decoder converts it only once it knows the type of the field. The reader of nested
  values counts its calls down from the number of bytes of the input, plus one, which is
  more than it can use (\<open>parse_value_enough_fuel\<close> below).
\<close>

datatype json =
    JNull | JBool bool | JNumber string | JString string
  | JArray "json list" | JObject "(string \<times> json) list"

definition isSpace :: "char \<Rightarrow> bool" where
  "isSpace c = (c = CHR '' '' \<or> c = CHR 0x09 \<or> c = CHR 0x0D \<or> c = CHR 0x0A)"

definition skipSpace :: "string \<Rightarrow> string" where
  "skipSpace = dropWhile isSpace"

definition hexval :: "char \<Rightarrow> nat option" where
  "hexval c =
     (let n = (of_char c :: nat)
      in if 48 \<le> n \<and> n \<le> 57 then Some (n - 48)
         else if 97 \<le> n \<and> n \<le> 102 then Some (n - 87)
         else if 65 \<le> n \<and> n \<le> 70 then Some (n - 55)
         else None)"

definition getu4 :: "char \<Rightarrow> char \<Rightarrow> char \<Rightarrow> char \<Rightarrow> nat option" where
  "getu4 a b c d =
     (case (hexval a, hexval b, hexval c, hexval d) of
        (Some x, Some y, Some z, Some w) \<Rightarrow> Some (((x * 16 + y) * 16 + z) * 16 + w)
      | _ \<Rightarrow> None)"

definition RuneError :: nat where
  "RuneError = 65533"

definition EncodeRune :: "nat \<Rightarrow> string" where
  "EncodeRune r =
     (if r < 128 then [char_of r]
      else if r < 2048 then [char_of (192 + r div 64), char_of (128 + r mod 64)]
      else if (55296 \<le> r \<and> r < 57344) \<or> 1114111 < r then [CHR 0xEF, CHR 0xBF, CHR 0xBD]
      else if r < 65536
        then [char_of (224 + r div 4096), char_of (128 + r div 64 mod 64), char_of (128 + r mod 64)]
      else [char_of (240 + r div 262144), char_of (128 + r div 4096 mod 64),
            char_of (128 + r div 64 mod 64), char_of (128 + r mod 64)])"

definition IsSurrogate :: "nat \<Rightarrow> bool" where
  "IsSurrogate r = (55296 \<le> r \<and> r < 57344)"

definition utf16_DecodeRune :: "nat \<Rightarrow> nat \<Rightarrow> nat" where
  "utf16_DecodeRune r1 r2 =
     (if 55296 \<le> r1 \<and> r1 < 56320 \<and> 56320 \<le> r2 \<and> r2 < 57344
      then (r1 - 55296) * 1024 + (r2 - 56320) + 65536
      else RuneError)"

definition escape_char :: "char \<Rightarrow> char option" where
  "escape_char c =
     (if c = CHR 0x22 \<or> c = CHR 0x5C \<or> c = CHR ''/'' then Some c
      else if c = CHR ''b'' then Some (CHR 0x08)
      else if c = CHR ''f'' then Some (CHR 0x0C)
      else if c = CHR ''n'' then Some (CHR 0x0A)
      else if c = CHR ''r'' then Some (CHR 0x0D)
      else if c = CHR ''t'' then Some (CHR 0x09)
      else None)"

definition continuation :: "char \<Rightarrow> bool" where
  "continuation c = (128 \<le> (of_char c :: nat) \<and> (of_char c :: nat) \<le> 191)"

definition utf8_size :: "string \<Rightarrow> nat" where
  "utf8_size s =
     (case s of
        [] \<Rightarrow> 0
      | b0 # r \<Rightarrow>
          (let n = (of_char b0 :: nat)
           in if 194 \<le> n \<and> n \<le> 223
                then (case r of b1 # _ \<Rightarrow> if continuation b1 then 2 else 0 | _ \<Rightarrow> 0)
              else if 224 \<le> n \<and> n \<le> 239
                then (case r of
                        b1 # b2 # _ \<Rightarrow>
                          if (if n = 224 then 160 else 128) \<le> (of_char b1 :: nat)
                             \<and> (of_char b1 :: nat) \<le> (if n = 237 then 159 else 191)
                             \<and> continuation b2
                          then 3 else 0
                      | _ \<Rightarrow> 0)
              else if 240 \<le> n \<and> n \<le> 244
                then (case r of
                        b1 # b2 # b3 # _ \<Rightarrow>
                          if (if n = 240 then 144 else 128) \<le> (of_char b1 :: nat)
                             \<and> (of_char b1 :: nat) \<le> (if n = 244 then 143 else 191)
                             \<and> continuation b2 \<and> continuation b3
                          then 4 else 0
                      | _ \<Rightarrow> 0)
              else 0))"

text \<open>
  An escape, after its backslash: the bytes it stands for and the number of bytes it takes
  from the input. A \<open>\u\<close> escape that is a surrogate is joined with the \<open>\u\<close> escape
  that follows it when the two form a pair, and otherwise stands for U+FFFD.
\<close>

definition unescape :: "string \<Rightarrow> (string \<times> nat) option" where
  "unescape cs =
     (case cs of
        [] \<Rightarrow> None
      | e # r \<Rightarrow>
          if e = CHR ''u'' then
            (case r of
               a # b # x # d # r1 \<Rightarrow>
                 (case getu4 a b x d of
                    None \<Rightarrow> None
                  | Some rr \<Rightarrow>
                      if IsSurrogate rr then
                        (case r1 of
                           s1 # s2 # a2 # b2 # x2 # d2 # r2 \<Rightarrow>
                             (case (if s1 = CHR 0x5C \<and> s2 = CHR ''u''
                                    then getu4 a2 b2 x2 d2 else None) of
                                Some rr1 \<Rightarrow>
                                  if utf16_DecodeRune rr rr1 \<noteq> RuneError
                                  then Some (EncodeRune (utf16_DecodeRune rr rr1), 11)
                                  else Some (EncodeRune RuneError, 5)
                              | None \<Rightarrow> Some (EncodeRune RuneError, 5))
                         | _ \<Rightarrow> Some (EncodeRune RuneError, 5))
                      else Some (EncodeRune rr, 5))
             | _ \<Rightarrow> None)
          else (case escape_char e of
                  None \<Rightarrow> None
                | Some b \<Rightarrow> Some ([b], 1)))"

text \<open>
  The body of a string literal, after its opening quote: the decoded bytes and the rest of
  the input after the closing quote. A control character is a syntax error; a well-formed
  UTF-8 sequence is copied, and a byte that does not begin one becomes U+FFFD.
\<close>

definition emit :: "string \<Rightarrow> (string \<times> string) option \<Rightarrow> (string \<times> string) option" where
  "emit out r = map_option (\<lambda>(s, rest). (out @ s, rest)) r"

function unquote :: "string \<Rightarrow> (string \<times> string) option" where
  "unquote [] = None"
| "unquote (c # cs) =
     (if c = CHR 0x22 then Some ([], cs)
      else if c = CHR 0x5C then
        (case unescape cs of
           None \<Rightarrow> None
         | Some (out, n) \<Rightarrow> emit out (unquote (drop n cs)))
      else if (of_char c :: nat) < 32 then None
      else if (of_char c :: nat) < 128 then emit [c] (unquote cs)
      else if utf8_size (c # cs) = 0 then emit (EncodeRune RuneError) (unquote cs)
      else emit (take (utf8_size (c # cs)) (c # cs))
             (unquote (drop (utf8_size (c # cs) - 1) cs)))"
  by pat_completeness auto
termination
  by (relation "measure length") auto

text \<open>The scanner's states inside a number; it stops at the first byte that cannot go on.\<close>

datatype numst = NBegin | NNeg | N0 | N1 | NDot | NDot0 | NE | NESign | NE0

definition isDigit :: "char \<Rightarrow> bool" where
  "isDigit c = (48 \<le> (of_char c :: nat) \<and> (of_char c :: nat) \<le> 57)"

definition num_step :: "numst \<Rightarrow> char \<Rightarrow> numst option" where
  "num_step st c =
     (case st of
        NBegin \<Rightarrow> if c = CHR ''-'' then Some NNeg else if c = CHR ''0'' then Some N0
                  else if isDigit c then Some N1 else None
      | NNeg \<Rightarrow> if c = CHR ''0'' then Some N0 else if isDigit c then Some N1 else None
      | N0 \<Rightarrow> if c = CHR ''.'' then Some NDot
              else if c = CHR ''e'' \<or> c = CHR ''E'' then Some NE else None
      | N1 \<Rightarrow> if isDigit c then Some N1 else if c = CHR ''.'' then Some NDot
              else if c = CHR ''e'' \<or> c = CHR ''E'' then Some NE else None
      | NDot \<Rightarrow> if isDigit c then Some NDot0 else None
      | NDot0 \<Rightarrow> if isDigit c then Some NDot0
                 else if c = CHR ''e'' \<or> c = CHR ''E'' then Some NE else None
      | NE \<Rightarrow> if c = CHR ''+'' \<or> c = CHR ''-'' then Some NESign
              else if isDigit c then Some NE0 else None
      | NESign \<Rightarrow> if isDigit c then Some NE0 else None
      | NE0 \<Rightarrow> if isDigit c then Some NE0 else None)"

definition num_end :: "numst \<Rightarrow> bool" where
  "num_end st = (st = N0 \<or> st = N1 \<or> st = NDot0 \<or> st = NE0)"

fun scan_number :: "numst \<Rightarrow> string \<Rightarrow> (string \<times> string) option" where
  "scan_number st [] = (if num_end st then Some ([], []) else None)"
| "scan_number st (c # cs) =
     (case num_step st c of
        Some st' \<Rightarrow> emit [c] (scan_number st' cs)
      | None \<Rightarrow> if num_end st then Some ([], c # cs) else None)"

definition literal :: "string \<Rightarrow> string \<Rightarrow> string option" where
  "literal w s = (if take (length w) s = w then Some (drop (length w) s) else None)"

text \<open>A value that is not an object or an array: a string, a literal name or a number.\<close>

definition parse_scalar :: "string \<Rightarrow> (json \<times> string) option" where
  "parse_scalar s =
     (case s of
        [] \<Rightarrow> None
      | c # cs \<Rightarrow>
          if c = CHR 0x22 then map_option (\<lambda>(x, r). (JString x, r)) (unquote cs)
          else if c = CHR ''t'' then map_option (\<lambda>r. (JBool True, r)) (literal ''true'' s)
          else if c = CHR ''f'' then map_option (\<lambda>r. (JBool False, r)) (literal ''false'' s)
          else if c = CHR ''n'' then map_option (\<lambda>r. (JNull, r)) (literal ''null'' s)
          else map_option (\<lambda>(x, r). (JNumber x, r)) (scan_number NBegin s))"

text \<open>
  The scanner keeps a stack of the objects and arrays it is inside of, and refuses to push
  onto a stack of \<open>maxNestingDepth\<close> entries. The second argument of the reader is the
  height of that stack.
\<close>

definition maxNestingDepth :: nat where
  "maxNestingDepth = 10000"

fun parse_value :: "nat \<Rightarrow> nat \<Rightarrow> string \<Rightarrow> (json \<times> string) option"
and parse_elems :: "nat \<Rightarrow> nat \<Rightarrow> string \<Rightarrow> (json list \<times> string) option"
and parse_members :: "nat \<Rightarrow> nat \<Rightarrow> string \<Rightarrow> ((string \<times> json) list \<times> string) option" where
  "parse_value 0 k s = None"
| "parse_value (Suc n) k s =
     (case skipSpace s of
        [] \<Rightarrow> None
      | c # cs \<Rightarrow>
          if c = CHR ''{'' then
            (if maxNestingDepth \<le> k then None
             else case skipSpace cs of
               [] \<Rightarrow> None
             | d # ds \<Rightarrow>
                 if d = CHR ''}'' then Some (JObject [], ds)
                 else map_option (\<lambda>(ms, r). (JObject ms, r)) (parse_members n (k + 1) (d # ds)))
          else if c = CHR ''['' then
            (if maxNestingDepth \<le> k then None
             else case skipSpace cs of
               [] \<Rightarrow> None
             | d # ds \<Rightarrow>
                 if d = CHR '']'' then Some (JArray [], ds)
                 else map_option (\<lambda>(vs, r). (JArray vs, r)) (parse_elems n (k + 1) (d # ds)))
          else parse_scalar (c # cs))"
| "parse_elems 0 k s = None"
| "parse_elems (Suc n) k s =
     (case parse_value n k s of
        None \<Rightarrow> None
      | Some (v, r) \<Rightarrow>
          (case skipSpace r of
             [] \<Rightarrow> None
           | c # cs \<Rightarrow>
               if c = CHR '','' then map_option (\<lambda>(vs, r'). (v # vs, r')) (parse_elems n k cs)
               else if c = CHR '']'' then Some ([v], cs)
               else None))"
| "parse_members 0 k s = None"
| "parse_members (Suc n) k s =
     (case skipSpace s of
        [] \<Rightarrow> None
      | q # qs \<Rightarrow>
          if q \<noteq> CHR 0x22 then None
          else (case unquote qs of
                  None \<Rightarrow> None
                | Some (key, r) \<Rightarrow>
                    (case skipSpace r of
                       [] \<Rightarrow> None
                     | c # cs \<Rightarrow>
                         if c \<noteq> CHR '':'' then None
                         else (case parse_value n k cs of
                                 None \<Rightarrow> None
                               | Some (v, r') \<Rightarrow>
                                   (case skipSpace r' of
                                      [] \<Rightarrow> None
                                    | d # ds \<Rightarrow>
                                        if d = CHR '','' then
                                          map_option (\<lambda>(ms, r''). ((key, v) # ms, r''))
                                            (parse_members n k ds)
                                        else if d = CHR ''}'' then Some ([(key, v)], ds)
                                        else None)))))"

definition json_parse :: "string \<Rightarrow> json option" where
  "json_parse data =
     (case parse_value (Suc (length data)) 0 data of
        None \<Rightarrow> None
      | Some (v, r) \<Rightarrow> if skipSpace r = [] then Some v else None)"

text \<open>
  The key of an object member selects the field whose name it equals, or else the first
  field whose name it equals under case folding. For the names of this package, which are
  ASCII, that is: upper and lower case letters are identified, and so are the two other
  characters that Unicode folds onto a letter, U+017F (long s, the bytes C5 BF) onto \<open>s\<close>
  and U+212A (Kelvin sign, the bytes E2 84 AA) onto \<open>k\<close>. A member that selects no field
  is skipped.
\<close>

definition toLower :: "char \<Rightarrow> char" where
  "toLower c =
     (if 65 \<le> (of_char c :: nat) \<and> (of_char c :: nat) \<le> 90
      then char_of ((of_char c :: nat) + 32) else c)"

function foldName :: "string \<Rightarrow> string" where
  "foldName [] = []"
| "foldName (c # cs) =
     (if c = CHR 0xC5 \<and> take 1 cs = [CHR 0xBF] then CHR ''s'' # foldName (drop 1 cs)
      else if c = CHR 0xE2 \<and> take 2 cs = [CHR 0x84, CHR 0xAA] then CHR ''k'' # foldName (drop 2 cs)
      else toLower c # foldName cs)"
  by pat_completeness auto
termination
  by (relation "measure length") auto

definition EqualFold :: "string \<Rightarrow> string \<Rightarrow> bool" where
  "EqualFold a b = (foldName a = foldName b)"

definition find_field :: "string list \<Rightarrow> string \<Rightarrow> string option" where
  "find_field names key =
     (case find (\<lambda>n. n = key) names of
        Some n \<Rightarrow> Some n
      | None \<Rightarrow> find (\<lambda>n. EqualFold n key) names)"

fun json_kind :: "json \<Rightarrow> string" where
  "json_kind JNull = ''null''"
| "json_kind (JBool b) = ''bool''"
| "json_kind (JNumber lit) = ''number''"
| "json_kind (JString x) = ''string''"
| "json_kind (JArray vs) = ''array''"
| "json_kind (JObject ms) = ''object''"

text \<open>
  Decoding into a \<open>string\<close> field and into an \<open>int32\<close> field: \<open>null\<close> leaves the field
  as it is, a value of the wrong kind leaves it as it is and reports a type error. The
  decoder keeps the first such error, goes on, and returns it at the end.
\<close>

definition decode_string :: "json \<Rightarrow> string \<Rightarrow> string \<times> error option" where
  "decode_string v cur =
     (case v of
        JNull \<Rightarrow> (cur, None)
      | JString x \<Rightarrow> (x, None)
      | _ \<Rightarrow> (cur, Some (UnmarshalTypeError (json_kind v) ''string'')))"

fun digits_value :: "string \<Rightarrow> nat \<Rightarrow> nat option" where
  "digits_value [] acc = Some acc"
| "digits_value (c # cs) acc =
     (if isDigit c then digits_value cs (acc * 10 + ((of_char c :: nat) - 48)) else None)"

definition ParseInt :: "string \<Rightarrow> int option" where
  "ParseInt lit =
     (case lit of
        [] \<Rightarrow> None
      | c # cs \<Rightarrow>
          if c = CHR ''-'' \<or> c = CHR ''+''
          then (if cs = [] then None
                else map_option (\<lambda>n. if c = CHR ''-'' then - int n else int n)
                       (digits_value cs 0))
          else map_option int (digits_value lit 0))"

definition decode_int32 :: "json \<Rightarrow> 32 word \<Rightarrow> 32 word \<times> error option" where
  "decode_int32 v cur =
     (case v of
        JNull \<Rightarrow> (cur, None)
      | JNumber lit \<Rightarrow>
          (case ParseInt lit of
             Some n \<Rightarrow>
               if - 2147483648 \<le> n \<and> n \<le> 2147483647 then (word_of_int n, None)
               else (cur, Some (UnmarshalTypeError (''number '' @ lit) ''int32''))
           | None \<Rightarrow> (cur, Some (UnmarshalTypeError (''number '' @ lit) ''int32'')))
      | _ \<Rightarrow> (cur, Some (UnmarshalTypeError (json_kind v) ''int32'')))"

definition saveError :: "error option \<Rightarrow> error option \<Rightarrow> error option" where
  "saveError saved new = (case saved of None \<Rightarrow> new | Some e \<Rightarrow> Some e)"

definition unexpected_end :: error where
  "unexpected_end = SyntaxError ''invalid character or unexpected end of JSON input''"

section \<open>The request transport\<close>

text \<open>
  Modelled from the spec: the package \<open>business/1.0/request\<close> is not among the sources.
  Its \<open>Config\<close> is the collaborator contract of the specification, "given {method, URL,
  optional body, content-type, bearer token, sandbox flag}", with the field names the
  callers use; a field a caller leaves out of the literal holds Go's zero value. The body
  is an \<open>interface{}\<close>: \<open>nil\<close>, a \<open>url.Values\<close> or the \<open>*ExchangeReq\<close> it was handed.
\<close>

datatype ContentType =
    ContentType_unset
  | ContentType_APPLICATION_JSON
  | ContentType_APPLICATION_FORM

record ExchangeAmount =
  AccountId :: string
  Amount :: float64
  Currency :: string

record ExchangeReq =
  From :: ExchangeAmount
  To :: ExchangeAmount
  Reference :: string
  RequestId :: string

datatype Body = Body_nil | Body_Values Values | Body_ExchangeReq "ExchangeReq option"

record Config =
  Method :: string
  Url :: string
  AccessToken :: string
  Sandbox :: bool
  Body :: Body
  ContentType :: ContentType

text \<open>
  \<open>request.New\<close> itself is a parameter of every operation: a function from the \<open>Config\<close>
  to either a transport error or the response bytes with the status code. Each operation
  returns, beside its result, the list of the configurations it handed to the transport,
  in order: the calls it made.
\<close>

type_synonym transport = "Config \<Rightarrow> error + string \<times> int"

definition http_StatusOK :: int where
  "http_StatusOK = 200"

definition http_MethodGet :: string where
  "http_MethodGet = ''GET''"

definition http_MethodPost :: string where
  "http_MethodPost = ''POST''"

section \<open>The exchange service\<close>

record ExchangeService =
  accessToken :: string
  sandbox :: bool
  err :: "error option"

record ExchangeRateReq =
  From :: string
  To :: string
  Amount :: float64

typedecl Time

record Amount =
  Amount :: float64
  Currency :: string

record ExchangeRateResp =
  From :: Amount
  To :: Amount
  Rate :: float64
  Fee :: Amount
  RateDate :: Time

record ExchangeResp =
  Id :: string
  State :: string
  ReasonCode :: string
  CreatedAt :: Time
  CompletedAt :: Time

text \<open>
  \<open>json.Unmarshal\<close> into the quote and into the order result reads floating-point numbers
  and timestamps; it is the first parameter of \<open>Rate\<close> and of \<open>Exchange\<close>, from the
  response bytes to a decode error or the decoded value.
\<close>

definition Rate ::
  "(string \<Rightarrow> error + ExchangeRateResp) \<Rightarrow> transport \<Rightarrow> ExchangeService
     \<Rightarrow> ExchangeRateReq option \<Rightarrow> ExchangeRateResp returned \<times> Config list" where
  "Rate json_Unmarshal request_New e exchangeRateReq =
     (case err e of
        Some stored \<Rightarrow> (Return None (Some stored), [])
      | None \<Rightarrow>
          (case exchangeRateReq of
             None \<Rightarrow> (Panic ''runtime error: invalid memory address or nil pointer dereference'', [])
           | Some rq \<Rightarrow>
               (let params = [];
                    params = Values_Add params ''from'' (ExchangeRateReq.From rq);
                    params = Values_Add params ''to'' (ExchangeRateReq.To rq);
                    params = Values_Add params ''amount''
                               (Sprintf_02f (ExchangeRateReq.Amount rq));
                    cfg = \<lparr>Config.Method = http_MethodGet,
                           Config.Url = ''https://b2b.revolut.com/api/1.0/rate?''
                                          @ Values_Encode params,
                           Config.AccessToken = accessToken e,
                           Config.Sandbox = sandbox e,
                           Config.Body = Body_nil,
                           Config.ContentType = ContentType_unset\<rparr>
                in case request_New cfg of
                     Inl er \<Rightarrow> (Return None (Some er), [cfg])
                   | Inr (resp, statusCode) \<Rightarrow>
                       if statusCode \<noteq> http_StatusOK
                       then (Return None (Some (errors_New resp)), [cfg])
                       else (case json_Unmarshal resp of
                               Inl er \<Rightarrow> (Return None (Some er), [cfg])
                             | Inr r \<Rightarrow> (Return (Some r) None, [cfg])))))"

definition Exchange ::
  "(string \<Rightarrow> error + ExchangeResp) \<Rightarrow> transport \<Rightarrow> ExchangeService
     \<Rightarrow> ExchangeReq option \<Rightarrow> ExchangeResp returned \<times> Config list" where
  "Exchange json_Unmarshal request_New e exchangeReq =
     (case err e of
        Some stored \<Rightarrow> (Return None (Some stored), [])
      | None \<Rightarrow>
          (let cfg = \<lparr>Config.Method = http_MethodPost,
                      Config.Url = ''https://b2b.revolut.com/api/1.0/exchange'',
                      Config.AccessToken = accessToken e,
                      Config.Sandbox = sandbox e,
                      Config.Body = Body_ExchangeReq exchangeReq,
                      Config.ContentType = ContentType_APPLICATION_JSON\<rparr>
           in case request_New cfg of
                Inl er \<Rightarrow> (Return None (Some er), [cfg])
              | Inr (resp, statusCode) \<Rightarrow>
                  if statusCode \<noteq> http_StatusOK
                  then (Return None (Some (errors_New resp)), [cfg])
                  else (case json_Unmarshal resp of
                          Inl er \<Rightarrow> (Return None (Some er), [cfg])
                        | Inr r \<Rightarrow> (Return (Some r) None, [cfg]))))"

text \<open>
  What \<open>json.Marshal\<close> makes of the body of an exchange order, as a tree: the members in
  the order of the struct's fields, under the names of their tags. A field tagged
  \<open>omitempty\<close> is left out when it is empty, which for a \<open>float64\<close> is when it equals
  zero; an infinity or a NaN cannot be encoded. The text of a non-zero number is a
  parameter, \<open>strconv\<close>'s shortest decimal that reads back as the same \<open>float64\<close>.
\<close>

definition json_Marshal_ExchangeAmount ::
  "(float64 \<Rightarrow> string) \<Rightarrow> ExchangeAmount \<Rightarrow> error + json" where
  "json_Marshal_ExchangeAmount FormatFloat a =
     (if equals_zero (ExchangeAmount.Amount a)
      then Inr (JObject [(''account_id'', JString (AccountId a)),
                         (''currency'', JString (ExchangeAmount.Currency a))])
      else if \<not> is_finite (ExchangeAmount.Amount a)
      then Inl (ForeignError (''json: unsupported value: ''
                 @ (case ExchangeAmount.Amount a of
                      Inf True \<Rightarrow> ''-Inf'' | Inf False \<Rightarrow> ''+Inf'' | _ \<Rightarrow> ''NaN'')))
      else Inr (JObject [(''account_id'', JString (AccountId a)),
                         (''amount'', JNumber (FormatFloat (ExchangeAmount.Amount a))),
                         (''currency'', JString (ExchangeAmount.Currency a))]))"

definition json_Marshal_ExchangeReq ::
  "(float64 \<Rightarrow> string) \<Rightarrow> ExchangeReq option \<Rightarrow> error + json" where
  "json_Marshal_ExchangeReq FormatFloat p =
     (case p of
        None \<Rightarrow> Inr JNull
      | Some rq \<Rightarrow>
          (case json_Marshal_ExchangeAmount FormatFloat (ExchangeReq.From rq) of
             Inl er \<Rightarrow> Inl er
           | Inr f \<Rightarrow>
               (case json_Marshal_ExchangeAmount FormatFloat (ExchangeReq.To rq) of
                  Inl er \<Rightarrow> Inl er
                | Inr t \<Rightarrow>
                    Inr (JObject [(''from'', f), (''to'', t),
                                  (''reference'', JString (Reference rq)),
                                  (''request_id'', JString (RequestId rq))]))))"

text \<open>
  Modelled from the spec: \<open>request.New\<close> is not among the sources. By the collaborator
  contract of the specification, "body is either JSON-serialized or form-urlencoded per the
  declared content type": the body an exchange order goes out with, when it is declared as
  JSON, is \<open>json.Marshal\<close> of the pointer the caller handed over.
\<close>

definition wire_json :: "(float64 \<Rightarrow> string) \<Rightarrow> Config \<Rightarrow> (error + json) option" where
  "wire_json FormatFloat cfg =
     (case (Config.ContentType cfg, Config.Body cfg) of
        (ContentType_APPLICATION_JSON, Body_ExchangeReq p) \<Rightarrow>
          Some (json_Marshal_ExchangeReq FormatFloat p)
      | _ \<Rightarrow> None)"

section \<open>The OAuth service\<close>

text \<open>
  The private key is a \<open>*rsa.PrivateKey\<close>; the package only stores it and passes it on,
  so its type is a parameter.
\<close>

record 'k OAuthService =
  clientId :: string
  privateKey :: 'k
  issuer :: string
  sandbox :: bool

definition NewOAuth :: "string \<Rightarrow> 'k \<Rightarrow> string \<Rightarrow> bool \<Rightarrow> 'k OAuthService" where
  "NewOAuth clientId' privateKey' issuer' sandbox' =
     \<lparr>clientId = clientId', privateKey = privateKey', issuer = issuer',
      OAuthService.sandbox = sandbox'\<rparr>"

definition clientAssertionType :: string where
  "clientAssertionType = ''urn:ietf:params:oauth:client-assertion-type:jwt-bearer''"

definition aud :: string where
  "aud = ''https://revolut.com''"

definition grant_type_authorization_code :: string where
  "grant_type_authorization_code = ''authorization_code''"

definition grant_type_refresh_token :: string where
  "grant_type_refresh_token = ''refresh_token''"

record OAuthResp =
  AccessToken :: string
  TokenType :: string
  ExpiresIn :: "32 word"
  RefreshToken :: string

record AuthorizationCodeResp =
  Id :: string
  Code :: string

subsection \<open>The JWT library\<close>

text \<open>
  \<open>github.com/dgrijalva/jwt-go\<close> is a dependency, not part of the repository. A token
  is the signing method, the header and the claims; \<open>NewWithClaims\<close> and \<open>SignedString\<close>
  are written after the library. Its two primitive steps are parameters: \<open>SigningString\<close>
  (the base64url text of the JSON of header and claims, joined by a dot) and \<open>Sign\<close> (the
  signature of a text under a method and a key, base64url again).
\<close>

datatype SigningMethod =
    SigningMethodHS256 | SigningMethodRS256 | SigningMethodRS384 | SigningMethodRS512
  | SigningMethodES256 | SigningMethodNone

fun Alg :: "SigningMethod \<Rightarrow> string" where
  "Alg SigningMethodHS256 = ''HS256''"
| "Alg SigningMethodRS256 = ''RS256''"
| "Alg SigningMethodRS384 = ''RS384''"
| "Alg SigningMethodRS512 = ''RS512''"
| "Alg SigningMethodES256 = ''ES256''"
| "Alg SigningMethodNone = ''none''"

record Token =
  Method :: SigningMethod
  Header :: "string \<rightharpoonup> string"
  Claims :: "string \<rightharpoonup> string"

record 'k jwt =
  SigningString :: "Token \<Rightarrow> error + string"
  Sign :: "SigningMethod \<Rightarrow> string \<Rightarrow> 'k \<Rightarrow> error + string"

definition NewWithClaims :: "SigningMethod \<Rightarrow> (string \<rightharpoonup> string) \<Rightarrow> Token" where
  "NewWithClaims method claims =
     \<lparr>Token.Method = method,
      Header = [''typ'' \<mapsto> ''JWT'', ''alg'' \<mapsto> Alg method],
      Claims = claims\<rparr>"

definition SignedString :: "'k jwt \<Rightarrow> Token \<Rightarrow> 'k \<Rightarrow> error + string" where
  "SignedString J t key =
     (case SigningString J t of
        Inl er \<Rightarrow> Inl er
      | Inr sstr \<Rightarrow>
          (case Sign J (Token.Method t) sstr key of
             Inl er \<Rightarrow> Inl er
           | Inr sig \<Rightarrow> Inr (strings_Join [sstr, sig] ''.'')))"

text \<open>
  The library's contract for a signature: what \<open>Sign\<close> returns for a text under a key,
  \<open>Verify\<close> accepts (returns no error) for that text under the corresponding public key.
\<close>

definition verifies ::
  "'k jwt \<Rightarrow> (SigningMethod \<Rightarrow> string \<Rightarrow> string \<Rightarrow> 'p \<Rightarrow> error option) \<Rightarrow> ('k \<Rightarrow> 'p) \<Rightarrow> bool" where
  "verifies J Verify Public =
     (\<forall>m sstr key sig. Sign J m sstr key = Inr sig \<longrightarrow> Verify m sstr sig (Public key) = None)"

subsection \<open>Operations\<close>

definition generateClientAssertion :: "'k jwt \<Rightarrow> 'k OAuthService \<Rightarrow> error + string" where
  "generateClientAssertion J oa =
     (let token = NewWithClaims SigningMethodRS256
                    [''iss'' \<mapsto> issuer oa, ''aud'' \<mapsto> aud, ''sub'' \<mapsto> clientId oa]
      in case SignedString J token (privateKey oa) of
           Inl er \<Rightarrow> Inl er
         | Inr signedToken \<Rightarrow> Inr signedToken)"

fun decode_OAuthResp :: "(string \<times> json) list \<Rightarrow> OAuthResp \<Rightarrow> error option
    \<Rightarrow> OAuthResp \<times> error option" where
  "decode_OAuthResp [] r saved = (r, saved)"
| "decode_OAuthResp ((key, v) # ms) r saved =
     (case find_field [''access_token'', ''token_type'', ''expires_in'', ''refresh_token''] key of
        None \<Rightarrow> decode_OAuthResp ms r saved
      | Some f \<Rightarrow>
          if f = ''access_token'' then
            (case decode_string v (OAuthResp.AccessToken r) of
               (x, er) \<Rightarrow> decode_OAuthResp ms (r\<lparr>OAuthResp.AccessToken := x\<rparr>) (saveError saved er))
          else if f = ''token_type'' then
            (case decode_string v (TokenType r) of
               (x, er) \<Rightarrow> decode_OAuthResp ms (r\<lparr>TokenType := x\<rparr>) (saveError saved er))
          else if f = ''expires_in'' then
            (case decode_int32 v (ExpiresIn r) of
               (x, er) \<Rightarrow> decode_OAuthResp ms (r\<lparr>ExpiresIn := x\<rparr>) (saveError saved er))
          else
            (case decode_string v (RefreshToken r) of
               (x, er) \<Rightarrow> decode_OAuthResp ms (r\<lparr>RefreshToken := x\<rparr>) (saveError saved er)))"

definition json_Unmarshal_OAuthResp :: "string \<Rightarrow> error + OAuthResp" where
  "json_Unmarshal_OAuthResp data =
     (let zero = \<lparr>OAuthResp.AccessToken = [], TokenType = [], ExpiresIn = 0,
                  RefreshToken = []\<rparr>
      in case json_parse data of
           None \<Rightarrow> Inl unexpected_end
         | Some JNull \<Rightarrow> Inr zero
         | Some (JObject ms) \<Rightarrow>
             (case decode_OAuthResp ms zero None of
                (r, None) \<Rightarrow> Inr r
              | (r, Some er) \<Rightarrow> Inl er)
         | Some v \<Rightarrow> Inl (UnmarshalTypeError (json_kind v) ''business.OAuthResp''))"

fun decode_AuthorizationCodeResp :: "(string \<times> json) list \<Rightarrow> AuthorizationCodeResp
    \<Rightarrow> error option \<Rightarrow> AuthorizationCodeResp \<times> error option" where
  "decode_AuthorizationCodeResp [] r saved = (r, saved)"
| "decode_AuthorizationCodeResp ((key, v) # ms) r saved =
     (case find_field [''Id'', ''Code''] key of
        None \<Rightarrow> decode_AuthorizationCodeResp ms r saved
      | Some f \<Rightarrow>
          if f = ''Id'' then
            (case decode_string v (AuthorizationCodeResp.Id r) of
               (x, er) \<Rightarrow>
                 decode_AuthorizationCodeResp ms (r\<lparr>AuthorizationCodeResp.Id := x\<rparr>)
                   (saveError saved er))
          else
            (case decode_string v (Code r) of
               (x, er) \<Rightarrow>
                 decode_AuthorizationCodeResp ms (r\<lparr>Code := x\<rparr>) (saveError saved er)))"

text \<open>
  The elements of a \<open>[]*AuthorizationCodeResp\<close>: \<open>null\<close> is a nil pointer, an object a
  pointer to a fresh struct.
\<close>

fun decode_elements :: "json list \<Rightarrow> error option
    \<Rightarrow> AuthorizationCodeResp option list \<times> error option" where
  "decode_elements [] saved = ([], saved)"
| "decode_elements (v # vs) saved =
     (let zero = \<lparr>AuthorizationCodeResp.Id = [], Code = []\<rparr>;
          (p, er) = (case v of
                       JNull \<Rightarrow> (None, None)
                     | JObject ms \<Rightarrow>
                         (case decode_AuthorizationCodeResp ms zero None of
                            (r, er) \<Rightarrow> (Some r, er))
                     | _ \<Rightarrow> (Some zero,
                            Some (UnmarshalTypeError (json_kind v)
                                    ''business.AuthorizationCodeResp'')));
          (ps, saved') = decode_elements vs (saveError saved er)
      in (p # ps, saved'))"

definition json_Unmarshal_AuthorizationCodeResps ::
  "string \<Rightarrow> error + AuthorizationCodeResp option list option" where
  "json_Unmarshal_AuthorizationCodeResps data =
     (case json_parse data of
        None \<Rightarrow> Inl unexpected_end
      | Some JNull \<Rightarrow> Inr None
      | Some (JArray vs) \<Rightarrow>
          (case decode_elements vs None of
             (ps, None) \<Rightarrow> Inr (Some ps)
           | (ps, Some er) \<Rightarrow> Inl er)
      | Some v \<Rightarrow> Inl (UnmarshalTypeError (json_kind v) ''[]*business.AuthorizationCodeResp''))"

definition ExchangeAuthorisationCode ::
  "'k jwt \<Rightarrow> transport \<Rightarrow> 'k OAuthService \<Rightarrow> string \<Rightarrow> OAuthResp returned \<times> Config list" where
  "ExchangeAuthorisationCode J request_New oa code =
     (case generateClientAssertion J oa of
        Inl er \<Rightarrow> (Return None (Some er), [])
      | Inr clientAssertion \<Rightarrow>
          (let cfg = \<lparr>Config.Method = http_MethodPost,
                      Config.Url = ''https://b2b.revolut.com/api/1.0/auth/token'',
                      Config.AccessToken = [],
                      Config.Sandbox = OAuthService.sandbox oa,
                      Config.Body = Body_Values
                        [(''grant_type'', [grant_type_authorization_code]),
                         (''code'', [code]),
                         (''client_id'', [clientId oa]),
                         (''client_assertion_type'', [clientAssertionType]),
                         (''client_assertion'', [clientAssertion])],
                      Config.ContentType = ContentType_APPLICATION_FORM\<rparr>
           in case request_New cfg of
                Inl er \<Rightarrow> (Return None (Some er), [cfg])
              | Inr (resp, statusCode) \<Rightarrow>
                  if statusCode \<noteq> http_StatusOK
                  then (Return None (Some (errors_New resp)), [cfg])
                  else (case json_Unmarshal_OAuthResp resp of
                          Inl er \<Rightarrow> (Return None (Some er), [cfg])
                        | Inr r \<Rightarrow> (Return (Some r) None, [cfg]))))"

definition RefreshAccessToken ::
  "'k jwt \<Rightarrow> transport \<Rightarrow> 'k OAuthService \<Rightarrow> string \<Rightarrow> OAuthResp returned \<times> Config list" where
  "RefreshAccessToken J request_New oa refreshToken =
     (case generateClientAssertion J oa of
        Inl er \<Rightarrow> (Return None (Some er), [])
      | Inr clientAssertion \<Rightarrow>
          (let cfg = \<lparr>Config.Method = http_MethodPost,
                      Config.Url = ''https://b2b.revolut.com/api/1.0/auth/token'',
                      Config.AccessToken = [],
                      Config.Sandbox = OAuthService.sandbox oa,
                      Config.Body = Body_Values
                        [(''grant_type'', [grant_type_refresh_token]),
                         (''refresh_token'', [refreshToken]),
                         (''client_id'', [clientId oa]),
                         (''client_assertion_type'', [clientAssertionType]),
                         (''client_assertion'', [clientAssertion])],
                      Config.ContentType = ContentType_APPLICATION_FORM\<rparr>
           in case request_New cfg of
                Inl er \<Rightarrow> (Return None (Some er), [cfg])
              | Inr (resp, statusCode) \<Rightarrow>
                  if statusCode \<noteq> http_StatusOK
                  then (Return None (Some (errors_New resp)), [cfg])
                  else (case json_Unmarshal_OAuthResp resp of
                          Inl er \<Rightarrow> (Return None (Some er), [cfg])
                        | Inr r \<Rightarrow> (Return (Some r) None, [cfg]))))"

definition GetAuthorisationCode ::
  "transport \<Rightarrow> 'k OAuthService \<Rightarrow> string \<Rightarrow> string
     \<Rightarrow> AuthorizationCodeResp option list returned \<times> Config list" where
  "GetAuthorisationCode request_New oa clientId' redirectUri =
     (let cfg = \<lparr>Config.Method = http_MethodGet,
                 Config.Url = ''https://business.revolut.com/app-confirm?client_id=''
                                @ clientId' @ ''&redirect_uri'' @ redirectUri,
                 Config.AccessToken = [],
                 Config.Sandbox = False,
                 Config.Body = Body_nil,
                 Config.ContentType = ContentType_unset\<rparr>
      in case request_New cfg of
           Inl er \<Rightarrow> (Return None (Some er), [cfg])
         | Inr (resp, statusCode) \<Rightarrow>
             if statusCode \<noteq> http_StatusOK
             then (Return None (Some (errors_New resp)), [cfg])
             else (case json_Unmarshal_AuthorizationCodeResps resp of
                     Inl er \<Rightarrow> (Return None (Some er), [cfg])
                   | Inr r \<Rightarrow> (Return r None, [cfg])))"

subsection \<open>The refresh operation, as the specification words it\<close>

text \<open>
  The specification describes \<open>RefreshAccessToken\<close> by reference to
  \<open>ExchangeAuthorisationCode\<close>: "identical shape with grant_type="refresh_token" and the
  refresh token in place of the code". \<open>refresh_for_code\<close> rewrites exactly these two
  form fields of a request and leaves everything else alone; \<open>RefreshAccessToken_spec\<close>
  is the code exchange (for any code) run against a transport that receives the rewritten
  request.
\<close>

definition refresh_for_code :: "string \<Rightarrow> Config \<Rightarrow> Config" where
  "refresh_for_code refreshToken cfg =
     cfg\<lparr>Config.Body :=
           (case Config.Body cfg of
              Body_Values v \<Rightarrow>
                Body_Values
                  (map (\<lambda>(k, vs). if k = ''grant_type'' then (''grant_type'', [''refresh_token''])
                                   else if k = ''code'' then (''refresh_token'', [refreshToken])
                                   else (k, vs)) v)
            | b \<Rightarrow> b)\<rparr>"

definition RefreshAccessToken_spec ::
  "'k jwt \<Rightarrow> transport \<Rightarrow> 'k OAuthService \<Rightarrow> string \<Rightarrow> string
     \<Rightarrow> OAuthResp returned \<times> Config list" where
  "RefreshAccessToken_spec J request_New oa refreshToken code =
     (case ExchangeAuthorisationCode J (\<lambda>cfg. request_New (refresh_for_code refreshToken cfg))
             oa code of
        (r, calls) \<Rightarrow> (r, map (refresh_for_code refreshToken) calls))"

section \<open>Example values\<close>

text \<open>
  A transport that answers every request with the same body and status, two services, two
  requests, and a stand-in for the JWT library whose signature of a text under a key is the
  reversed text followed by the key (the public key of a key being the key itself).
\<close>

definition example_transport :: "string \<Rightarrow> int \<Rightarrow> transport" where
  "example_transport body status = (\<lambda>cfg. Inr (body, status))"

definition example_exchange :: ExchangeService where
  "example_exchange = \<lparr>accessToken = ''token'', sandbox = True, err = None\<rparr>"

definition example_oauth :: "string OAuthService" where
  "example_oauth = NewOAuth ''app-id'' ''private-key'' ''example.com'' True"

definition example_rate_req :: ExchangeRateReq where
  "example_rate_req = \<lparr>ExchangeRateReq.From = ''USD'', ExchangeRateReq.To = ''EUR'',
                        ExchangeRateReq.Amount = Finite False 1 0\<rparr>"

definition example_rate_req_eighth :: ExchangeRateReq where
  "example_rate_req_eighth = \<lparr>ExchangeRateReq.From = ''USD'', ExchangeRateReq.To = ''EUR'',
                               ExchangeRateReq.Amount = Finite False 1 (- 3)\<rparr>"

definition example_rate_req_infinite :: ExchangeRateReq where
  "example_rate_req_infinite = \<lparr>ExchangeRateReq.From = ''USD'', ExchangeRateReq.To = ''EUR'',
                                 ExchangeRateReq.Amount = Inf False\<rparr>"

definition example_order :: ExchangeReq where
  "example_order =
     \<lparr>ExchangeReq.From = \<lparr>AccountId = ''acc-1'', ExchangeAmount.Amount = float64_zero,
                           ExchangeAmount.Currency = ''USD''\<rparr>,
      ExchangeReq.To = \<lparr>AccountId = ''acc-2'', ExchangeAmount.Amount = Finite False 5 1,
                         ExchangeAmount.Currency = ''EUR''\<rparr>,
      Reference = ''ref'', RequestId = ''req-1''\<rparr>"

definition example_jwt :: "string jwt" where
  "example_jwt =
     \<lparr>SigningString = (\<lambda>t. Inr (Alg (Token.Method t) @ ''.''
          @ concat (map (\<lambda>k. case Claims t k of None \<Rightarrow> [] | Some v \<Rightarrow> k @ ''='' @ v @ '';'')
                     [''aud'', ''iss'', ''sub'']))),
      Sign = (\<lambda>m sstr key. if key = [] then Inl (ForeignError ''key is invalid'')
                            else Inr (rev sstr @ key))\<rparr>"

definition example_Verify :: "SigningMethod \<Rightarrow> string \<Rightarrow> string \<Rightarrow> string \<Rightarrow> error option" where
  "example_Verify m sstr sig pub =
     (if sig = rev sstr @ pub then None else Some (ForeignError ''crypto/rsa: verification error''))"

section \<open>Properties\<close>

subsection \<open>Printing and escaping an amount\<close>

text \<open>
  The number printed is the nearest hundredth: exact when the exponent is not negative, and
  otherwise at most half a hundredth away from \<open>m * 2^e\<close>.
\<close>

lemma round_half_even_nearest:
  assumes "0 < d"
  shows "2 * q \<le> (2 * round_half_even q d + 1) * d \<and> 2 * round_half_even q d * d \<le> 2 * q + d"
proof -
  define n where "n = q div d"
  define r where "r = q mod d"
  have q: "q = n * d + r" and r: "r < d"
    using assms by (simp_all add: n_def r_def)
  consider "2 * r < d" | "d < 2 * r" | "2 * r = d" by linarith
  then show ?thesis
  proof cases
    case 1
    then have "round_half_even q d = n"
      by (simp add: round_half_even_def Let_def n_def r_def)
    with 1 q show ?thesis by (simp add: algebra_simps)
  next
    case 2
    then have "round_half_even q d = n + 1"
      by (simp add: round_half_even_def Let_def n_def r_def)
    with 2 q r show ?thesis by (simp add: algebra_simps)
  next
    case 3
    then have "round_half_even q d = n \<or> round_half_even q d = n + 1"
      by (simp add: round_half_even_def Let_def n_def r_def)
    with 3 q show ?thesis by (auto simp: algebra_simps)
  qed
qed

lemma hundredths_exact: "0 \<le> e \<Longrightarrow> hundredths m e = 100 * m * 2 ^ nat e"
  by (simp add: hundredths_def)

lemma hundredths_nearest:
  assumes "e < 0"
  shows "2 * (100 * m) \<le> (2 * hundredths m e + 1) * 2 ^ nat (- e)
       \<and> 2 * hundredths m e * 2 ^ nat (- e) \<le> 2 * (100 * m) + 2 ^ nat (- e)"
  using assms round_half_even_nearest [of "2 ^ nat (- e)" "m * 100"]
  by (simp add: hundredths_def mult.commute)

lemma digit_char_isDigit: "d < 10 \<Longrightarrow> isDigit (digit_char d)"
  by (simp add: isDigit_def digit_char_def)

lemma Itoa_digits: "c \<in> set (Itoa n) \<Longrightarrow> isDigit c"
proof (induction n arbitrary: c rule: Itoa.induct)
  case (1 n)
  show ?case
  proof (cases "n < 10")
    case True
    with "1.prems" show ?thesis
      by (simp add: Itoa.simps [of n] digit_char_isDigit)
  next
    case False
    with "1.prems" have "c \<in> set (Itoa (n div 10)) \<or> c = digit_char (n mod 10)"
      by (auto simp: Itoa.simps [of n])
    then show ?thesis
      using "1.IH" [OF False] by (auto simp: digit_char_isDigit)
  qed
qed

lemma Itoa_not_Nil: "Itoa n \<noteq> []"
  by (simp add: Itoa.simps [of n])

lemma isDigit_unescaped: "isDigit c \<Longrightarrow> \<not> shouldEscape c \<and> c \<noteq> CHR '' ''"
  by (auto simp: isDigit_def shouldEscape_def Let_def)

lemma QueryEscape_unreserved:
  "(\<And>c. c \<in> set s \<Longrightarrow> \<not> shouldEscape c \<and> c \<noteq> CHR '' '') \<Longrightarrow> QueryEscape s = s"
  by (induction s) auto

lemma Sprintf_02f_shape:
  assumes "is_finite a" and "is_positive a"
  shows "\<exists>whole d1 d2. Sprintf_02f a = whole @ ''.'' @ [d1, d2]
           \<and> whole \<noteq> [] \<and> (\<forall>c\<in>set whole. isDigit c) \<and> isDigit d1 \<and> isDigit d2"
proof (cases a)
  case (Finite s m e)
  with assms have s: "\<not> s" by simp
  let ?n = "hundredths m e"
  have "Sprintf_02f a = Itoa (?n div 100) @ ''.'' @ [digit_char (?n mod 100 div 10), digit_char (?n mod 10)]"
    using Finite s by (simp add: Let_def)
  moreover have "isDigit (digit_char (?n mod 100 div 10))" "isDigit (digit_char (?n mod 10))"
    by (simp_all add: digit_char_isDigit)
  ultimately show ?thesis
    using Itoa_not_Nil Itoa_digits by blast
qed (use assms in simp_all)

lemma QueryEscape_Sprintf_02f:
  assumes "is_finite a" and "is_positive a"
  shows "QueryEscape (Sprintf_02f a) = Sprintf_02f a"
proof -
  obtain whole d1 d2 where sh: "Sprintf_02f a = whole @ ''.'' @ [d1, d2]"
    "\<forall>c\<in>set whole. isDigit c" "isDigit d1" "isDigit d2"
    using Sprintf_02f_shape [OF assms] by blast
  have "\<not> shouldEscape c \<and> c \<noteq> CHR '' ''" if "c \<in> set (Sprintf_02f a)" for c
  proof -
    from that sh have "isDigit c \<or> c = CHR ''.''" by auto
    then show ?thesis
      using isDigit_unescaped by (auto simp: shouldEscape_def)
  qed
  then show ?thesis by (rule QueryEscape_unreserved)
qed

lemma round_half_even_ties:
  assumes "0 < d"
    and "2 * q = (2 * round_half_even q d + 1) * d \<or> 2 * round_half_even q d * d = 2 * q + d"
  shows "even (round_half_even q d)"
proof -
  define n where "n = q div d"
  define r where "r = q mod d"
  have q: "q = n * d + r" and r: "r < d"
    using assms(1) by (simp_all add: n_def r_def)
  consider "2 * r < d" | "d < 2 * r" | "2 * r = d" by linarith
  then show ?thesis
  proof cases
    case 1
    then have rn: "round_half_even q d = n"
      by (simp add: round_half_even_def Let_def n_def r_def)
    with assms(2) q 1 show ?thesis by (auto simp: algebra_simps)
  next
    case 2
    then have rn: "round_half_even q d = n + 1"
      by (simp add: round_half_even_def Let_def n_def r_def)
    with assms(2) q 2 r show ?thesis by (auto simp: algebra_simps)
  next
    case 3
    then show ?thesis
      by (auto simp: round_half_even_def Let_def n_def r_def)
  qed
qed

lemma hundredths_ties:
  assumes "e < 0"
    and "2 * (100 * m) = (2 * hundredths m e + 1) * 2 ^ nat (- e)
       \<or> 2 * hundredths m e * 2 ^ nat (- e) = 2 * (100 * m) + 2 ^ nat (- e)"
  shows "even (hundredths m e)"
  using assms round_half_even_ties [of "2 ^ nat (- e)" "m * 100"]
  by (simp add: hundredths_def mult.commute)

text \<open>At most one number is the nearest hundredth with ties to even.\<close>

lemma nearest_even_unique:
  fixes d q n n' :: nat
  assumes d: "0 < d"
    and n: "2 * q \<le> (2 * n + 1) * d" "2 * n * d \<le> 2 * q + d"
      "2 * q = (2 * n + 1) * d \<or> 2 * n * d = 2 * q + d \<longrightarrow> even n"
    and n': "2 * q \<le> (2 * n' + 1) * d" "2 * n' * d \<le> 2 * q + d"
      "2 * q = (2 * n' + 1) * d \<or> 2 * n' * d = 2 * q + d \<longrightarrow> even n'"
  shows "n = n'"
proof -
  have step: "False"
    if lt: "a < b"
      and a: "2 * q \<le> (2 * a + 1) * d" "2 * q = (2 * a + 1) * d \<or> 2 * a * d = 2 * q + d \<longrightarrow> even a"
      and b: "2 * b * d \<le> 2 * q + d" "2 * q = (2 * b + 1) * d \<or> 2 * b * d = 2 * q + d \<longrightarrow> even b"
    for a b :: nat
  proof -
    from lt have "a + 1 \<le> b" by simp
    then have "(a + 1) * d \<le> b * d" by (rule mult_le_mono1)
    then have 1: "2 * (a + 1) * d \<le> 2 * b * d" by (simp add: algebra_simps)
    with b(1) have 2: "2 * (a + 1) * d \<le> 2 * q + d" by linarith
    then have "(2 * a + 1) * d \<le> 2 * q" by (simp add: algebra_simps)
    with a(1) have tie: "2 * q = (2 * a + 1) * d" by linarith
    with a(2) have ea: "even a" by blast
    from tie b(1) have "2 * b * d \<le> 2 * (a + 1) * d" by (simp add: algebra_simps)
    with 1 have eq: "2 * b * d = 2 * (a + 1) * d" by linarith
    then have "b * d = (a + 1) * d" by (simp add: algebra_simps)
    with d have "b = a + 1" by (simp only: mult_cancel2) simp
    moreover from eq tie have "2 * b * d = 2 * q + d" by (simp add: algebra_simps)
    with b(2) have "even b" by blast
    ultimately show False using ea by simp
  qed
  show ?thesis
  proof (rule ccontr)
    assume "n \<noteq> n'"
    then consider "n < n'" | "n' < n" by linarith
    then show False
    proof cases
      case 1
      from step [OF 1 n(1) n(3) n'(2) n'(3)] show False .
    next
      case 2
      from step [OF 2 n'(1) n'(3) n(2) n(3)] show False .
    qed
  qed
qed

lemma digit_char_value: "d < 10 \<Longrightarrow> (of_char (digit_char d) :: nat) - 48 = d"
  by (simp add: digit_char_def)

lemma Itoa_value: "foldl (\<lambda>a c. 10 * a + ((of_char c :: nat) - 48)) 0 (Itoa n) = n"
proof (induction n rule: Itoa.induct)
  case (1 n)
  show ?case
  proof (cases "n < 10")
    case True
    then show ?thesis by (simp add: Itoa.simps [of n] digit_char_value)
  next
    case False
    with "1.IH" show ?thesis
      by (simp add: Itoa.simps [of n] digit_char_value)
  qed
qed

lemma Itoa_no_leading_zero: "0 < n \<Longrightarrow> hd (Itoa n) \<noteq> CHR ''0''"
proof (induction n rule: Itoa.induct)
  case (1 n)
  show ?case
  proof (cases "n < 10")
    case True
    have "digit_char n \<noteq> CHR ''0''"
    proof
      assume "digit_char n = CHR ''0''"
      then have "(of_char (digit_char n) :: nat) - 48 = of_char (CHR ''0'') - 48" by simp
      with True "1.prems" show False by (simp add: digit_char_value)
    qed
    with True show ?thesis by (simp add: Itoa.simps [of n])
  next
    case False
    then have "0 < n div 10" by simp
    with "1.IH" False have "hd (Itoa (n div 10)) \<noteq> CHR ''0''" by simp
    with False Itoa_not_Nil [of "n div 10"] show ?thesis
      by (simp add: Itoa.simps [of n])
  qed
qed

lemma Itoa_zero: "Itoa 0 = ''0''"
  by (simp add: Itoa.simps digit_char_def char_of_def bit_Suc_0_iff)

lemma Itoa_canonical: "Itoa n = ''0'' \<or> hd (Itoa n) \<noteq> CHR ''0''"
  using Itoa_zero Itoa_no_leading_zero [of n] by (cases "n = 0") auto

lemma Sprintf_02f_zero: "Sprintf_02f float64_zero = ''0.00''"
  by code_simp

lemmas Sprintf_defs = hundredths_def round_half_even_def Let_def Itoa.simps digit_char_def
  char_of_def bit_Suc_0_iff

lemma Sprintf_02f_examples:
  "Sprintf_02f (Finite False 1 0) = ''1.00''"
  "Sprintf_02f (Finite False 4526117625507348 (- 52)) = ''1.00''"
  "Sprintf_02f (Finite False 6023564501608038 (- 51)) = ''2.67''"
  "Sprintf_02f (Finite False 1 (- 3)) = ''0.12''"
  "Sprintf_02f (Finite False 3 (- 3)) = ''0.38''"
  "Sprintf_02f (Finite False 5429686605511341 (- 42)) = ''1234.57''"
  "Sprintf_02f (Finite False 1 (- 1074)) = ''0.00''"
  "Sprintf_02f (Finite True 3 (- 1)) = ''-1.50''"
  "Sprintf_02f (Finite True 0 0) = ''-0.00''"
  "Sprintf_02f (Inf False) = ''+Inf''"
  "Sprintf_02f NaN = ''NaN''"
  by (simp_all add: Sprintf_defs)

lemma QueryEscape_examples:
  "QueryEscape ''a b&c=d/e'' = ''a+b%26c%3Dd%2Fe''"
  "QueryEscape ''+Inf'' = ''%2BInf''"
  by code_simp+

subsection \<open>What each operation hands to the transport\<close>

lemma Rate_params_Encode:
  "Values_Encode [(''from'', [f]), (''to'', [t]), (''amount'', [a])]
     = ''amount='' @ QueryEscape a @ ''&from='' @ QueryEscape f @ ''&to='' @ QueryEscape t"
  by (simp add: Values_Encode_def shouldEscape_def)

lemma Rate_calls:
  "err e = None \<Longrightarrow>
   snd (Rate dec request_New e (Some rq)) =
     [\<lparr>Config.Method = ''GET'',
       Config.Url = ''https://b2b.revolut.com/api/1.0/rate?amount=''
          @ QueryEscape (Sprintf_02f (ExchangeRateReq.Amount rq))
          @ ''&from='' @ QueryEscape (ExchangeRateReq.From rq)
          @ ''&to='' @ QueryEscape (ExchangeRateReq.To rq),
       Config.AccessToken = accessToken e,
       Config.Sandbox = ExchangeService.sandbox e,
       Config.Body = Body_nil,
       Config.ContentType = ContentType_unset\<rparr>]"
  by (simp add: Rate_def Let_def Rate_params_Encode http_MethodGet_def
           split: sum.splits prod.splits)

lemma sandbox_flag_reaches_the_transport:
  "err e = None \<Longrightarrow>
     map Config.Sandbox (snd (Rate decR request_New e (Some rateReq))) = [ExchangeService.sandbox e]"
  "err e = None \<Longrightarrow>
     map Config.Sandbox (snd (Exchange decX request_New e order)) = [ExchangeService.sandbox e]"
  "generateClientAssertion J oa = Inr a \<Longrightarrow>
     map Config.Sandbox (snd (ExchangeAuthorisationCode J request_New oa code))
       = [OAuthService.sandbox oa]"
  "generateClientAssertion J oa = Inr a \<Longrightarrow>
     map Config.Sandbox (snd (RefreshAccessToken J request_New oa refreshToken))
       = [OAuthService.sandbox oa]"
  by (simp_all add: Rate_def Exchange_def ExchangeAuthorisationCode_def RefreshAccessToken_def
        Let_def split: sum.splits prod.splits)

subsection \<open>Decoding and encoding JSON\<close>

text \<open>
  The reader never runs out of fuel: every successful call leaves a shorter input, and it
  succeeds again, with the same result, on any fuel that is at least the number of bytes it
  consumed. So more fuel than \<open>json_parse\<close> gives changes nothing.
\<close>

lemma skipSpace_length: "length (skipSpace s) \<le> length s"
  by (simp add: skipSpace_def length_dropWhile_le)

lemma emit_eq_Some: "emit out r = Some (x, rest) \<longleftrightarrow> (\<exists>y. r = Some (y, rest) \<and> x = out @ y)"
  by (auto simp: emit_def)

lemma unquote_shorter: "unquote s = Some (x, r) \<Longrightarrow> length r < length s"
proof (induction s arbitrary: x r rule: unquote.induct)
  case 1
  then show ?case by simp
next
  case (2 c cs)
  show ?case
    using "2.prems" "2.IH"
    by (fastforce simp: emit_eq_Some split: if_splits option.splits)
qed

lemma scan_number_shorter:
  "scan_number st s = Some (x, r) \<Longrightarrow>
     length r \<le> length s \<and> (\<not> num_end st \<longrightarrow> length r < length s)"
proof (induction s arbitrary: st x r)
  case Nil
  then show ?case by (simp split: if_splits)
next
  case (Cons c cs)
  then show ?case
    by (fastforce simp: emit_eq_Some split: option.splits if_splits)
qed

lemma literal_shorter: "literal w s = Some r \<Longrightarrow> w \<noteq> [] \<Longrightarrow> length r < length s"
  by (cases s) (auto simp: literal_def split: if_splits)

lemma parse_scalar_shorter:
  assumes "parse_scalar s = Some (v, r)"
  shows "length r < length s"
proof (cases s)
  case Nil
  with assms show ?thesis by (simp add: parse_scalar_def)
next
  case (Cons c cs)
  consider (str) x where "unquote cs = Some (x, r)"
    | (lit) w where "literal w s = Some r" "w \<noteq> []"
    | (num) x where "scan_number NBegin s = Some (x, r)"
    using assms Cons
    by (auto simp: parse_scalar_def simp del: scan_number.simps split: if_splits)
  then show ?thesis
  proof cases
    case str
    then show ?thesis using unquote_shorter Cons by fastforce
  next
    case lit
    then show ?thesis by (rule literal_shorter)
  next
    case num
    then show ?thesis using scan_number_shorter by (fastforce simp: num_end_def)
  qed
qed

lemma parse_fuel:
  "(\<forall>k s v r. parse_value n k s = Some (v, r) \<longrightarrow>
       length r < length s \<and> (\<forall>m. length s - length r \<le> m \<longrightarrow> parse_value m k s = Some (v, r)))
 \<and> (\<forall>k s vs r. parse_elems n k s = Some (vs, r) \<longrightarrow>
       length r < length s \<and> (\<forall>m. length s - length r \<le> m \<longrightarrow> parse_elems m k s = Some (vs, r)))
 \<and> (\<forall>k s ms r. parse_members n k s = Some (ms, r) \<longrightarrow>
       length r < length s \<and> (\<forall>m. length s - length r \<le> m \<longrightarrow> parse_members m k s = Some (ms, r)))"
proof (induction n)
  case 0
  show ?case by simp
next
  case (Suc n)
  have IHv: "length r < length s \<and> (\<forall>m. length s - length r \<le> m \<longrightarrow> parse_value m k s = Some (v, r))"
    if "parse_value n k s = Some (v, r)" for k s v r
    using Suc that by blast
  have IHe: "length r < length s \<and> (\<forall>m. length s - length r \<le> m \<longrightarrow> parse_elems m k s = Some (vs, r))"
    if "parse_elems n k s = Some (vs, r)" for k s vs r
    using Suc that by blast
  have IHm: "length r < length s \<and> (\<forall>m. length s - length r \<le> m \<longrightarrow> parse_members m k s = Some (ms, r))"
    if "parse_members n k s = Some (ms, r)" for k s ms r
    using Suc that by blast
  have V: "length r < length s \<and> (\<forall>m. length s - length r \<le> m \<longrightarrow> parse_value m k s = Some (v, r))"
    if A: "parse_value (Suc n) k s = Some (v, r)" for k s v r
  proof -
    obtain c cs where sk: "skipSpace s = c # cs"
      using A by (cases "skipSpace s") simp_all
    have l0: "Suc (length cs) \<le> length s"
      using skipSpace_length [of s] sk by simp
    consider (obj) "c = CHR ''{''" | (arr) "c \<noteq> CHR ''{''" "c = CHR ''[''"
      | (scalar) "c \<noteq> CHR ''{''" "c \<noteq> CHR ''[''"
      by blast
    then show ?thesis
    proof cases
      case obj
      have dp: "\<not> maxNestingDepth \<le> k"
        using A sk obj by (auto split: if_splits)
      obtain d ds where sk2: "skipSpace cs = d # ds"
        using A sk obj dp by (cases "skipSpace cs") simp_all
      have l1: "Suc (length ds) \<le> length cs"
        using skipSpace_length [of cs] sk2 by simp
      show ?thesis
      proof (cases "d = CHR ''}''")
        case True
        with A sk obj dp sk2 have vr: "v = JObject []" "r = ds" by simp_all
        have "parse_value m k s = Some (v, r)" if "length s - length r \<le> m" for m
        proof -
          from that l0 l1 vr obtain m' where "m = Suc m'" by (cases m) auto
          then show ?thesis using sk obj dp sk2 True vr by simp
        qed
        then show ?thesis using l0 l1 vr by auto
      next
        case False
        with A sk obj dp sk2 obtain ms where pm: "parse_members n (k + 1) (d # ds) = Some (ms, r)"
          and v: "v = JObject ms"
          by auto
        from IHm [OF pm] have lr: "length r < length (d # ds)"
          and suff: "\<And>m. length (d # ds) - length r \<le> m \<Longrightarrow> parse_members m (k + 1) (d # ds) = Some (ms, r)"
          by blast+
        have "parse_value m k s = Some (v, r)" if "length s - length r \<le> m" for m
        proof -
          from that l0 l1 lr obtain m' where m: "m = Suc m'" by (cases m) auto
          with that l0 l1 lr have "length (d # ds) - length r \<le> m'" by simp
          from suff [OF this] show ?thesis using m sk obj dp sk2 False v by simp
        qed
        then show ?thesis using l0 l1 lr by auto
      qed
    next
      case arr
      have dp: "\<not> maxNestingDepth \<le> k"
        using A sk arr by (auto split: if_splits)
      obtain d ds where sk2: "skipSpace cs = d # ds"
        using A sk arr dp by (cases "skipSpace cs") simp_all
      have l1: "Suc (length ds) \<le> length cs"
        using skipSpace_length [of cs] sk2 by simp
      show ?thesis
      proof (cases "d = CHR '']''")
        case True
        with A sk arr dp sk2 have vr: "v = JArray []" "r = ds" by simp_all
        have "parse_value m k s = Some (v, r)" if "length s - length r \<le> m" for m
        proof -
          from that l0 l1 vr obtain m' where "m = Suc m'" by (cases m) auto
          then show ?thesis using sk arr dp sk2 True vr by simp
        qed
        then show ?thesis using l0 l1 vr by auto
      next
        case False
        with A sk arr dp sk2 obtain vs where pe: "parse_elems n (k + 1) (d # ds) = Some (vs, r)"
          and v: "v = JArray vs"
          by auto
        from IHe [OF pe] have lr: "length r < length (d # ds)"
          and suff: "\<And>m. length (d # ds) - length r \<le> m \<Longrightarrow> parse_elems m (k + 1) (d # ds) = Some (vs, r)"
          by blast+
        have "parse_value m k s = Some (v, r)" if "length s - length r \<le> m" for m
        proof -
          from that l0 l1 lr obtain m' where m: "m = Suc m'" by (cases m) auto
          with that l0 l1 lr have "length (d # ds) - length r \<le> m'" by simp
          from suff [OF this] show ?thesis using m sk arr dp sk2 False v by simp
        qed
        then show ?thesis using l0 l1 lr by auto
      qed
    next
      case scalar
      with A sk have ps: "parse_scalar (c # cs) = Some (v, r)" by simp
      from parse_scalar_shorter [OF ps] have lr: "length r < length (c # cs)" .
      have "parse_value m k s = Some (v, r)" if "length s - length r \<le> m" for m
      proof -
        from that l0 lr obtain m' where "m = Suc m'" by (cases m) auto
        then show ?thesis using sk scalar ps by simp
      qed
      then show ?thesis using l0 lr by auto
    qed
  qed
  have E: "length r < length s \<and> (\<forall>m. length s - length r \<le> m \<longrightarrow> parse_elems m k s = Some (vs, r))"
    if A: "parse_elems (Suc n) k s = Some (vs, r)" for k s vs r
  proof -
    obtain v r1 where pv: "parse_value n k s = Some (v, r1)"
      using A by (cases "parse_value n k s") auto
    from IHv [OF pv] have l0: "length r1 < length s"
      and suffv: "\<And>m. length s - length r1 \<le> m \<Longrightarrow> parse_value m k s = Some (v, r1)"
      by blast+
    obtain c cs where sk: "skipSpace r1 = c # cs"
      using A pv by (cases "skipSpace r1") simp_all
    have l1: "Suc (length cs) \<le> length r1"
      using skipSpace_length [of r1] sk by simp
    consider (more) "c = CHR '',''" | (close) "c \<noteq> CHR '',''" "c = CHR '']''"
      using A pv sk by (auto split: if_splits)
    then show ?thesis
    proof cases
      case more
      with A pv sk obtain vs' where pe: "parse_elems n k cs = Some (vs', r)" and vs: "vs = v # vs'"
        by auto
      from IHe [OF pe] have lr: "length r < length cs"
        and suff: "\<And>m. length cs - length r \<le> m \<Longrightarrow> parse_elems m k cs = Some (vs', r)"
        by blast+
      have "parse_elems m k s = Some (vs, r)" if "length s - length r \<le> m" for m
      proof -
        from that l0 l1 lr obtain m' where m: "m = Suc m'" by (cases m) auto
        with that l0 l1 lr have "length s - length r1 \<le> m'" "length cs - length r \<le> m'"
          by simp_all
        from suffv [OF this(1)] suff [OF this(2)] show ?thesis
          using m sk more vs by simp
      qed
      then show ?thesis using l0 l1 lr by auto
    next
      case close
      with A pv sk have vr: "vs = [v]" "r = cs" by simp_all
      have "parse_elems m k s = Some (vs, r)" if "length s - length r \<le> m" for m
      proof -
        from that l0 l1 vr obtain m' where m: "m = Suc m'" by (cases m) auto
        with that l0 l1 vr have "length s - length r1 \<le> m'" by simp
        from suffv [OF this] show ?thesis using m sk close vr by simp
      qed
      then show ?thesis using l0 l1 vr by auto
    qed
  qed
  have M: "length r < length s \<and> (\<forall>m. length s - length r \<le> m \<longrightarrow> parse_members m k s = Some (ms, r))"
    if A: "parse_members (Suc n) k s = Some (ms, r)" for k s ms r
  proof -
    obtain q qs where sk: "skipSpace s = q # qs"
      using A by (cases "skipSpace s") simp_all
    have q: "q = CHR 0x22"
      using A sk by (auto split: if_splits)
    have l0: "Suc (length qs) \<le> length s"
      using skipSpace_length [of s] sk by simp
    obtain key r0 where uq: "unquote qs = Some (key, r0)"
      using A sk q by (cases "unquote qs") auto
    from unquote_shorter [OF uq] have l1: "length r0 < length qs" .
    obtain c cs where sk2: "skipSpace r0 = c # cs"
      using A sk q uq by (cases "skipSpace r0") simp_all
    have c: "c = CHR '':''"
      using A sk q uq sk2 by (auto split: if_splits)
    have l2: "Suc (length cs) \<le> length r0"
      using skipSpace_length [of r0] sk2 by simp
    obtain v r1 where pv: "parse_value n k cs = Some (v, r1)"
      using A sk q uq sk2 c by (cases "parse_value n k cs") auto
    from IHv [OF pv] have l3: "length r1 < length cs"
      and suffv: "\<And>m. length cs - length r1 \<le> m \<Longrightarrow> parse_value m k cs = Some (v, r1)"
      by blast+
    obtain d ds where sk3: "skipSpace r1 = d # ds"
      using A sk q uq sk2 c pv by (cases "skipSpace r1") simp_all
    have l4: "Suc (length ds) \<le> length r1"
      using skipSpace_length [of r1] sk3 by simp
    consider (more) "d = CHR '',''" | (close) "d \<noteq> CHR '',''" "d = CHR ''}''"
      using A sk q uq sk2 c pv sk3 by (auto split: if_splits)
    then show ?thesis
    proof cases
      case more
      with A sk q uq sk2 c pv sk3 obtain ms' where pm: "parse_members n k ds = Some (ms', r)"
        and ms: "ms = (key, v) # ms'"
        by auto
      from IHm [OF pm] have lr: "length r < length ds"
        and suff: "\<And>m. length ds - length r \<le> m \<Longrightarrow> parse_members m k ds = Some (ms', r)"
        by blast+
      have "parse_members m k s = Some (ms, r)" if "length s - length r \<le> m" for m
      proof -
        from that l0 l1 l2 l3 l4 lr obtain m' where m: "m = Suc m'" by (cases m) auto
        with that l0 l1 l2 l3 l4 lr
        have "length cs - length r1 \<le> m'" "length ds - length r \<le> m'"
          by simp_all
        from suffv [OF this(1)] suff [OF this(2)] show ?thesis
          using m sk q uq sk2 c sk3 more ms by simp
      qed
      then show ?thesis using l0 l1 l2 l3 l4 lr by auto
    next
      case close
      with A sk q uq sk2 c pv sk3 have mr: "ms = [(key, v)]" "r = ds" by simp_all
      have "parse_members m k s = Some (ms, r)" if "length s - length r \<le> m" for m
      proof -
        from that l0 l1 l2 l3 l4 mr obtain m' where m: "m = Suc m'" by (cases m) auto
        with that l0 l1 l2 l3 l4 mr have "length cs - length r1 \<le> m'" by simp
        from suffv [OF this] show ?thesis
          using m sk q uq sk2 c sk3 close mr by simp
      qed
      then show ?thesis using l0 l1 l2 l3 l4 mr by auto
    qed
  qed
  from V E M show ?case by blast
qed

lemma parse_value_enough_fuel:
  assumes "Suc (length data) \<le> m"
  shows "parse_value m k data = parse_value (Suc (length data)) k data"
proof (cases "parse_value m k data")
  case None
  show ?thesis
  proof (cases "parse_value (Suc (length data)) k data")
    case None
    with \<open>parse_value m k data = None\<close> show ?thesis by simp
  next
    case (Some p)
    obtain v r where "parse_value (Suc (length data)) k data = Some (v, r)"
      using Some by (cases p) simp
    with parse_fuel [of "Suc (length data)"] assms
    have "parse_value m k data = Some (v, r)" by (meson diff_le_self le_trans Suc_leD)
    with None show ?thesis by simp
  qed
next
  case (Some p)
  obtain v r where vr: "parse_value m k data = Some (v, r)"
    using Some by (cases p) simp
  with parse_fuel [of m]
  have "parse_value (Suc (length data)) k data = Some (v, r)"
    by (meson diff_le_self le_SucI)
  with vr show ?thesis by simp
qed

text \<open>At the limit of nesting, one more array or object is a syntax error.\<close>

lemma parse_value_at_max_depth:
  assumes "maxNestingDepth \<le> k" and "c = CHR ''['' \<or> c = CHR ''{''"
  shows "parse_value n k (c # s) = None"
  using assms by (cases n) (auto simp: skipSpace_def isSpace_def)

lemmas json_defs = json_Unmarshal_OAuthResp_def json_parse_def maxNestingDepth_def skipSpace_def isSpace_def
  hexval_def getu4_def RuneError_def EncodeRune_def IsSurrogate_def utf16_DecodeRune_def
  escape_char_def continuation_def utf8_size_def emit_def isDigit_def num_step_def num_end_def
  literal_def parse_scalar_def toLower_def EqualFold_def find_field_def decode_string_def ParseInt_def
  decode_int32_def saveError_def unexpected_end_def Let_def char_of_def unescape_def bit_Suc_0_iff

lemma json_Unmarshal_token_response:
  \<open>json_Unmarshal_OAuthResp
     ''{"access_token":"tok","token_type":"bearer","expires_in":3600,"refresh_token":"ref"}''
   = Inr \<lparr>OAuthResp.AccessToken = ''tok'', TokenType = ''bearer'', ExpiresIn = 3600,
          RefreshToken = ''ref''\<rparr>\<close>
  by code_simp

lemma json_Unmarshal_OAuthResp_examples:
  \<open>json_Unmarshal_OAuthResp ''{"expires_in":3600.5}''
     = Inl (UnmarshalTypeError ''number 3600.5'' ''int32'')\<close>
  \<open>json_Unmarshal_OAuthResp ''{"expires_in":2147483648}''
     = Inl (UnmarshalTypeError ''number 2147483648'' ''int32'')\<close>
  \<open>json_Unmarshal_OAuthResp ''{"expires_in":-2147483648}''
     = Inr \<lparr>OAuthResp.AccessToken = [], TokenType = [], ExpiresIn = - 2147483648,
            RefreshToken = []\<rparr>\<close>
  \<open>json_Unmarshal_OAuthResp ''{"access_token":5, "expires_in":"x", "token_type":"t"}''
     = Inl (UnmarshalTypeError ''number'' ''string'')\<close>
  \<open>json_Unmarshal_OAuthResp ''{"access_token":"tok"} x'' = Inl unexpected_end\<close>
  \<open>json_Unmarshal_OAuthResp
       (''{"ACCE'' @ [CHR 0xC5, CHR 0xBF] @ ''S_TO'' @ [CHR 0xE2, CHR 0x84, CHR 0xAA] @ ''EN":"t"}'')
     = Inr \<lparr>OAuthResp.AccessToken = ''t'', TokenType = [], ExpiresIn = 0,
            RefreshToken = []\<rparr>\<close>
  \<open>json_Unmarshal_OAuthResp ''null''
     = Inr \<lparr>OAuthResp.AccessToken = [], TokenType = [], ExpiresIn = 0, RefreshToken = []\<rparr>\<close>
  \<open>json_Unmarshal_OAuthResp
       (''{"Access_Token":"a'' @ [CHR 0x5C] @ ''u00e9'' @ [CHR 0x5C]
          @ ''n","other":[1,{"x":null}]} '')
     = Inr \<lparr>OAuthResp.AccessToken = [CHR ''a'', CHR 0xC3, CHR 0xA9, CHR 0x0A],
            TokenType = [], ExpiresIn = 0, RefreshToken = []\<rparr>\<close>
  \<open>json_Unmarshal_OAuthResp
       (''{"access_token":"'' @ [CHR 0x5C] @ ''ud83d'' @ [CHR 0x5C] @ ''ude00 '' @ [CHR 0x5C]
          @ ''ud83d","refresh_token":"'' @ [CHR 0xE2, CHR 0x82, CHR 0xAC, CHR 0xFF] @ ''"}'')
     = Inr \<lparr>OAuthResp.AccessToken =
              [CHR 0xF0, CHR 0x9F, CHR 0x98, CHR 0x80, CHR '' '', CHR 0xEF, CHR 0xBF, CHR 0xBD],
            TokenType = [], ExpiresIn = 0,
            RefreshToken = [CHR 0xE2, CHR 0x82, CHR 0xAC, CHR 0xEF, CHR 0xBF, CHR 0xBD]\<rparr>\<close>
  by (simp_all add: json_defs)

lemma json_Unmarshal_AuthorizationCodeResps_examples:
  \<open>json_Unmarshal_AuthorizationCodeResps ''[{"id":"acc","code":"xyz"}, null]''
     = Inr (Some [Some \<lparr>AuthorizationCodeResp.Id = ''acc'', Code = ''xyz''\<rparr>, None])\<close>
  \<open>json_Unmarshal_AuthorizationCodeResps ''null'' = Inr None\<close>
  \<open>json_Unmarshal_AuthorizationCodeResps ''{"id":"acc"}''
     = Inl (UnmarshalTypeError ''object'' ''[]*business.AuthorizationCodeResp'')\<close>
  \<open>json_Unmarshal_AuthorizationCodeResps ''[{"id":"acc"'' = Inl unexpected_end\<close>
  by code_simp+

lemma json_Marshal_ExchangeAmount_finite:
  assumes "is_finite (ExchangeAmount.Amount a)"
  shows "\<exists>f. json_Marshal_ExchangeAmount FormatFloat a = Inr (JObject f)
           \<and> (''amount'' \<in> fst ` set f) = (\<not> equals_zero (ExchangeAmount.Amount a))"
  using assms by (cases "equals_zero (ExchangeAmount.Amount a)")
    (simp_all add: json_Marshal_ExchangeAmount_def)

subsection \<open>The claims\<close>

text \<open>
  Claim C1. A service whose stored error is not nil answers \<open>Rate\<close> and \<open>Exchange\<close> with
  that error and a nil result, whatever the request argument (a nil pointer included), and
  hands nothing to the transport: the list of calls is empty.
\<close>

theorem poisoned_service_short_circuits:
  assumes "err e = Some stored"
  shows "Rate dec1 request_New e rateReq = (Return None (Some stored), [])
       \<and> Exchange dec2 request_New e exchangeReq = (Return None (Some stored), [])"
  using assms by (simp add: Rate_def Exchange_def)

theorem poisoned_service_short_circuits_witness:
  "err \<lparr>accessToken = '''', sandbox = True, err = Some (ForeignError ''missing token'')\<rparr>
     = Some (ForeignError ''missing token'')
   \<and> Rate (\<lambda>b. Inl (SyntaxError b)) (\<lambda>c. Inr (''{}'', 200))
        \<lparr>accessToken = '''', sandbox = True, err = Some (ForeignError ''missing token'')\<rparr>
        (Some \<lparr>ExchangeRateReq.From = ''USD'', ExchangeRateReq.To = ''EUR'',
               ExchangeRateReq.Amount = Finite False 1 0\<rparr>)
     = (Return None (Some (ForeignError ''missing token'')), [])
   \<and> Exchange (\<lambda>b. Inl (SyntaxError b)) (\<lambda>c. Inr (''{}'', 200))
        \<lparr>accessToken = '''', sandbox = True, err = Some (ForeignError ''missing token'')\<rparr>
        None
     = (Return None (Some (ForeignError ''missing token'')), [])"
  using poisoned_service_short_circuits
    [of "\<lparr>accessToken = '''', sandbox = True, err = Some (ForeignError ''missing token'')\<rparr>"
        "ForeignError ''missing token''"
        "\<lambda>b. Inl (SyntaxError b)" "\<lambda>c. Inr (''{}'', 200)"
        "Some \<lparr>ExchangeRateReq.From = ''USD'', ExchangeRateReq.To = ''EUR'',
               ExchangeRateReq.Amount = Finite False 1 0\<rparr>"
        "\<lambda>b. Inl (SyntaxError b)" None]
  by simp

text \<open>
  Claim C2. For each of the five operations: when the operation has called the transport,
  and the transport answered that call without an error and with a status other than 200,
  the operation returns a nil result and the error \<open>errors.New(string(resp))\<close>, whose
  message is the response body.
\<close>

theorem non_200_is_error_with_body:
  "(Rate decR trR eR rqR = (rR, [cfgR]) \<and> trR cfgR = Inr (respR, scR) \<and> scR \<noteq> 200
      \<longrightarrow> rR = Return None (Some (errors_New respR)) \<and> Error (errors_New respR) = respR)
 \<and> (Exchange decX trX eX rqX = (rX, [cfgX]) \<and> trX cfgX = Inr (respX, scX) \<and> scX \<noteq> 200
      \<longrightarrow> rX = Return None (Some (errors_New respX)) \<and> Error (errors_New respX) = respX)
 \<and> (ExchangeAuthorisationCode JA trA oaA codeA = (rA, [cfgA]) \<and> trA cfgA = Inr (respA, scA)
        \<and> scA \<noteq> 200
      \<longrightarrow> rA = Return None (Some (errors_New respA)) \<and> Error (errors_New respA) = respA)
 \<and> (RefreshAccessToken JF trF oaF tokF = (rF, [cfgF]) \<and> trF cfgF = Inr (respF, scF)
        \<and> scF \<noteq> 200
      \<longrightarrow> rF = Return None (Some (errors_New respF)) \<and> Error (errors_New respF) = respF)
 \<and> (GetAuthorisationCode trG oaG cidG uriG = (rG, [cfgG]) \<and> trG cfgG = Inr (respG, scG)
        \<and> scG \<noteq> 200
      \<longrightarrow> rG = Return None (Some (errors_New respG)) \<and> Error (errors_New respG) = respG)"
proof (intro conjI impI)
  assume "Rate decR trR eR rqR = (rR, [cfgR]) \<and> trR cfgR = Inr (respR, scR) \<and> scR \<noteq> 200"
  then show "rR = Return None (Some (errors_New respR))"
    by (auto simp: Rate_def Let_def http_StatusOK_def split: option.splits sum.splits if_splits prod.splits)
next
  assume "Exchange decX trX eX rqX = (rX, [cfgX]) \<and> trX cfgX = Inr (respX, scX) \<and> scX \<noteq> 200"
  then show "rX = Return None (Some (errors_New respX))"
    by (auto simp: Exchange_def Let_def http_StatusOK_def split: option.splits sum.splits if_splits prod.splits)
next
  assume "ExchangeAuthorisationCode JA trA oaA codeA = (rA, [cfgA]) \<and> trA cfgA = Inr (respA, scA)
        \<and> scA \<noteq> 200"
  then show "rA = Return None (Some (errors_New respA))"
    by (auto simp: ExchangeAuthorisationCode_def Let_def http_StatusOK_def
             split: option.splits sum.splits if_splits prod.splits)
next
  assume "RefreshAccessToken JF trF oaF tokF = (rF, [cfgF]) \<and> trF cfgF = Inr (respF, scF)
        \<and> scF \<noteq> 200"
  then show "rF = Return None (Some (errors_New respF))"
    by (auto simp: RefreshAccessToken_def Let_def http_StatusOK_def
             split: option.splits sum.splits if_splits prod.splits)
next
  assume "GetAuthorisationCode trG oaG cidG uriG = (rG, [cfgG]) \<and> trG cfgG = Inr (respG, scG)
        \<and> scG \<noteq> 200"
  then show "rG = Return None (Some (errors_New respG))"
    by (auto simp: GetAuthorisationCode_def Let_def http_StatusOK_def
             split: option.splits sum.splits if_splits prod.splits)
qed simp_all

theorem non_200_is_error_with_body_witness:
  "fst (Rate (\<lambda>b. Inl unexpected_end) (example_transport ''forbidden'' 403)
          example_exchange (Some example_rate_req))
     = Return None (Some (errors_New ''forbidden''))
   \<and> fst (Exchange (\<lambda>b. Inl unexpected_end) (example_transport ''forbidden'' 403)
          example_exchange (Some example_order))
     = Return None (Some (errors_New ''forbidden''))
   \<and> fst (ExchangeAuthorisationCode example_jwt (example_transport ''forbidden'' 403)
          example_oauth ''code123'')
     = Return None (Some (errors_New ''forbidden''))
   \<and> fst (RefreshAccessToken example_jwt (example_transport ''forbidden'' 403)
          example_oauth ''ref'')
     = Return None (Some (errors_New ''forbidden''))
   \<and> fst (GetAuthorisationCode (example_transport ''forbidden'' 403)
          example_oauth ''app-id'' ''https://example.com/cb'')
     = Return None (Some (errors_New ''forbidden''))
   \<and> Error (errors_New ''forbidden'') = ''forbidden''"
proof -
  let ?tr = "example_transport ''forbidden'' 403"
  let ?R = "Rate (\<lambda>b. Inl unexpected_end) ?tr example_exchange (Some example_rate_req)"
  let ?X = "Exchange (\<lambda>b. Inl unexpected_end) ?tr example_exchange (Some example_order)"
  let ?A = "ExchangeAuthorisationCode example_jwt ?tr example_oauth ''code123''"
  let ?F = "RefreshAccessToken example_jwt ?tr example_oauth ''ref''"
  let ?G = "GetAuthorisationCode ?tr example_oauth ''app-id'' ''https://example.com/cb''"
  have tr: "?tr cfg = Inr (''forbidden'', 403)" for cfg
    by (simp add: example_transport_def)
  have g: "\<exists>a. generateClientAssertion example_jwt example_oauth = Inr a"
    by (simp add: generateClientAssertion_def SignedString_def example_jwt_def example_oauth_def
          NewOAuth_def NewWithClaims_def)
  have "snd ?R = [hd (snd ?R)]"
    by (simp add: Rate_def Let_def example_exchange_def example_transport_def
          http_StatusOK_def)
  then have R: "?R = (fst ?R, [hd (snd ?R)])"
    by (metis prod.collapse)
  have "snd ?X = [hd (snd ?X)]"
    by (simp add: Exchange_def Let_def example_exchange_def example_transport_def
          http_StatusOK_def)
  then have X: "?X = (fst ?X, [hd (snd ?X)])"
    by (metis prod.collapse)
  have "snd ?A = [hd (snd ?A)]"
    using g by (auto simp: ExchangeAuthorisationCode_def Let_def example_transport_def
                  http_StatusOK_def)
  then have A: "?A = (fst ?A, [hd (snd ?A)])"
    by (metis prod.collapse)
  have "snd ?F = [hd (snd ?F)]"
    using g by (auto simp: RefreshAccessToken_def Let_def example_transport_def
                  http_StatusOK_def)
  then have F: "?F = (fst ?F, [hd (snd ?F)])"
    by (metis prod.collapse)
  have "snd ?G = [hd (snd ?G)]"
    by (simp add: GetAuthorisationCode_def Let_def example_transport_def http_StatusOK_def)
  then have G: "?G = (fst ?G, [hd (snd ?G)])"
    by (metis prod.collapse)
  have ne: "(403::int) \<noteq> 200" by simp
  show ?thesis
    using non_200_is_error_with_body
      [of "\<lambda>b. Inl unexpected_end" ?tr example_exchange "Some example_rate_req"
          "fst ?R" "hd (snd ?R)" "''forbidden''" 403
          "\<lambda>b. Inl unexpected_end" ?tr example_exchange "Some example_order"
          "fst ?X" "hd (snd ?X)" "''forbidden''" 403
          example_jwt ?tr example_oauth "''code123''"
          "fst ?A" "hd (snd ?A)" "''forbidden''" 403
          example_jwt ?tr example_oauth "''ref''"
          "fst ?F" "hd (snd ?F)" "''forbidden''" 403
          ?tr example_oauth "''app-id''" "''https://example.com/cb''"
          "fst ?G" "hd (snd ?G)" "''forbidden''" 403]
      R X A F G tr ne
    by simp
qed

text \<open>
  Claim C3. \<open>generateClientAssertion\<close> signs, with the key the service holds, a token
  whose claims are exactly \<open>iss\<close> (the issuer), \<open>aud\<close> (\<open>https://revolut.com\<close>) and
  \<open>sub\<close> (the client id), with no \<open>exp\<close> and no \<open>iat\<close>, and whose header names the
  algorithm RS256. Whenever it returns a token, that token is the signing string of this
  JWT, a dot, and its RS256 signature under the held key; so a library whose \<open>Verify\<close>
  accepts what its \<open>Sign\<close> produces accepts it under the corresponding public key.
\<close>

theorem generateClientAssertion_jwt:
  "\<exists>token.
      generateClientAssertion J oa = SignedString J token (privateKey oa)
    \<and> Claims token = [''iss'' \<mapsto> issuer oa, ''aud'' \<mapsto> ''https://revolut.com'', ''sub'' \<mapsto> clientId oa]
    \<and> dom (Claims token) = {''iss'', ''aud'', ''sub''}
    \<and> Claims token ''exp'' = None \<and> Claims token ''iat'' = None
    \<and> Token.Method token = SigningMethodRS256
    \<and> Header token ''alg'' = Some ''RS256''
    \<and> (\<forall>signedToken.
          verifies J Verify Public \<and> generateClientAssertion J oa = Inr signedToken \<longrightarrow>
          (\<exists>sstr sig. SigningString J token = Inr sstr
             \<and> Sign J SigningMethodRS256 sstr (privateKey oa) = Inr sig
             \<and> signedToken = sstr @ ''.'' @ sig
             \<and> Verify SigningMethodRS256 sstr sig (Public (privateKey oa)) = None))"
  apply (rule exI [of _ "NewWithClaims SigningMethodRS256
                    [''iss'' \<mapsto> issuer oa, ''aud'' \<mapsto> aud, ''sub'' \<mapsto> clientId oa]"])
  apply (auto simp: generateClientAssertion_def NewWithClaims_def aud_def SignedString_def
        verifies_def split: sum.splits)
  done

theorem generateClientAssertion_jwt_witness:
  "verifies example_jwt example_Verify id
   \<and> generateClientAssertion example_jwt example_oauth
       = Inr (''RS256.aud=https://revolut.com;iss=example.com;sub=app-id;'' @ ''.''
               @ rev ''RS256.aud=https://revolut.com;iss=example.com;sub=app-id;'' @ ''private-key'')
   \<and> (\<exists>token sstr sig.
         Claims token = [''iss'' \<mapsto> ''example.com'', ''aud'' \<mapsto> ''https://revolut.com'',
                         ''sub'' \<mapsto> ''app-id'']
       \<and> Header token ''alg'' = Some ''RS256''
       \<and> SigningString example_jwt token = Inr sstr
       \<and> generateClientAssertion example_jwt example_oauth = Inr (sstr @ ''.'' @ sig)
       \<and> example_Verify SigningMethodRS256 sstr sig ''private-key'' = None)"
proof -
  have v: "verifies example_jwt example_Verify id"
    by (simp add: verifies_def example_jwt_def example_Verify_def)
  have g: "generateClientAssertion example_jwt example_oauth
       = Inr (''RS256.aud=https://revolut.com;iss=example.com;sub=app-id;'' @ ''.''
               @ rev ''RS256.aud=https://revolut.com;iss=example.com;sub=app-id;'' @ ''private-key'')"
    by (simp add: generateClientAssertion_def SignedString_def example_jwt_def example_oauth_def
          NewOAuth_def NewWithClaims_def aud_def)
  have o: "issuer example_oauth = ''example.com''" "clientId example_oauth = ''app-id''"
      "privateKey example_oauth = ''private-key''"
    by (simp_all add: example_oauth_def NewOAuth_def)
  from generateClientAssertion_jwt [of example_jwt example_oauth example_Verify id]
  obtain token where tk:
      "Claims token = [''iss'' \<mapsto> issuer example_oauth, ''aud'' \<mapsto> ''https://revolut.com'',
                       ''sub'' \<mapsto> clientId example_oauth]"
      "Header token ''alg'' = Some ''RS256''"
      "\<forall>signedToken.
          verifies example_jwt example_Verify id
          \<and> generateClientAssertion example_jwt example_oauth = Inr signedToken \<longrightarrow>
          (\<exists>sstr sig. SigningString example_jwt token = Inr sstr
             \<and> Sign example_jwt SigningMethodRS256 sstr (privateKey example_oauth) = Inr sig
             \<and> signedToken = sstr @ ''.'' @ sig
             \<and> example_Verify SigningMethodRS256 sstr sig (id (privateKey example_oauth)) = None)"
    by blast
  from tk(3) v g obtain sstr sig where
      "SigningString example_jwt token = Inr sstr"
      "generateClientAssertion example_jwt example_oauth = Inr (sstr @ ''.'' @ sig)"
      "example_Verify SigningMethodRS256 sstr sig (id (privateKey example_oauth)) = None"
    by metis
  with tk(1,2) o have "\<exists>token sstr sig.
         Claims token = [''iss'' \<mapsto> ''example.com'', ''aud'' \<mapsto> ''https://revolut.com'',
                         ''sub'' \<mapsto> ''app-id'']
       \<and> Header token ''alg'' = Some ''RS256''
       \<and> SigningString example_jwt token = Inr sstr
       \<and> generateClientAssertion example_jwt example_oauth = Inr (sstr @ ''.'' @ sig)
       \<and> example_Verify SigningMethodRS256 sstr sig ''private-key'' = None"
    by (intro exI [of _ token] exI [of _ sstr] exI [of _ sig]) simp
  with v g show ?thesis by blast
qed

text \<open>
  Claim C4. When \<open>ExchangeAuthorisationCode("code123")\<close> has called the transport and the
  transport answered 200 with the body
  \<open>{"access_token":"tok","token_type":"bearer","expires_in":3600,"refresh_token":"ref"}\<close>,
  the operation returns a nil error and an \<open>OAuthResp\<close> with access token \<open>tok\<close>, token
  type \<open>bearer\<close>, \<open>ExpiresIn\<close> 3600 and refresh token \<open>ref\<close>.
\<close>

theorem ExchangeAuthorisationCode_decodes_the_token_response:
  assumes \<open>ExchangeAuthorisationCode J request_New oa ''code123'' = (r, [cfg])\<close>
      and \<open>request_New cfg = Inr
             (''{"access_token":"tok","token_type":"bearer","expires_in":3600,"refresh_token":"ref"}'',
              200)\<close>
  shows \<open>r = Return (Some \<lparr>OAuthResp.AccessToken = ''tok'', TokenType = ''bearer'',
                           ExpiresIn = 3600, RefreshToken = ''ref''\<rparr>) None\<close>
  using assms json_Unmarshal_token_response
  by (auto simp: ExchangeAuthorisationCode_def Let_def http_StatusOK_def
           split: sum.splits prod.splits if_splits)

theorem ExchangeAuthorisationCode_decodes_the_token_response_witness:
  \<open>fst (ExchangeAuthorisationCode example_jwt
          (example_transport
             ''{"access_token":"tok","token_type":"bearer","expires_in":3600,"refresh_token":"ref"}''
             200)
          example_oauth ''code123'')
   = Return (Some \<lparr>OAuthResp.AccessToken = ''tok'', TokenType = ''bearer'',
                    ExpiresIn = 3600, RefreshToken = ''ref''\<rparr>) None\<close>
proof -
  let ?tr = \<open>example_transport
             ''{"access_token":"tok","token_type":"bearer","expires_in":3600,"refresh_token":"ref"}''
             200\<close>
  let ?run = "ExchangeAuthorisationCode example_jwt ?tr example_oauth ''code123''"
  have g: "\<exists>a. generateClientAssertion example_jwt example_oauth = Inr a"
    by (simp add: generateClientAssertion_def SignedString_def example_jwt_def example_oauth_def
          NewOAuth_def NewWithClaims_def)
  have "snd ?run = [hd (snd ?run)]"
    using g by (auto simp: ExchangeAuthorisationCode_def Let_def example_transport_def
                     split: sum.splits prod.splits)
  then have 1: "?run = (fst ?run, [hd (snd ?run)])"
    by (metis prod.collapse)
  have 2: \<open>?tr (hd (snd ?run)) = Inr
             (''{"access_token":"tok","token_type":"bearer","expires_in":3600,"refresh_token":"ref"}'',
              200)\<close>
    by (simp add: example_transport_def)
  show ?thesis
    using ExchangeAuthorisationCode_decodes_the_token_response [OF 1 2] .
qed

text \<open>
  Claim C5, amended to finite amounts. For every pair of currencies and every positive
  finite amount \<open>m * 2^ex\<close>, a service without stored error calls the transport once, with
  the URL whose query is \<open>amount\<close>, \<open>from\<close>, \<open>to\<close> in this order. The value of
  \<open>amount\<close> is what \<open>Sprintf("%0.2f")\<close> prints, unchanged by the query escaping: \<open>n\<close>
  hundredths written as the decimal digits of \<open>n div 100\<close> without a leading zero, a dot,
  and the two digits of \<open>n mod 100\<close>, where \<open>n\<close> is the integer nearest to a hundred times
  the amount, an exact half going to the even neighbour (\<open>nearest_even_unique\<close>: there is
  one such \<open>n\<close>). The amount 1 goes out as \<open>1.00\<close> and 0.125 as \<open>0.12\<close>.
\<close>

theorem Rate_formats_amount_with_two_decimals:
  assumes "err e = None"
      and "ExchangeRateReq.Amount rq = Finite False m ex"
      and "0 < m"
  shows "\<exists>cfg whole d1 d2 n.
           snd (Rate dec request_New e (Some rq)) = [cfg]
         \<and> Config.Url cfg = ''https://b2b.revolut.com/api/1.0/rate?amount=''
               @ whole @ ''.'' @ [d1, d2]
               @ ''&from='' @ QueryEscape (ExchangeRateReq.From rq)
               @ ''&to='' @ QueryEscape (ExchangeRateReq.To rq)
         \<and> whole @ ''.'' @ [d1, d2] = Sprintf_02f (ExchangeRateReq.Amount rq)
         \<and> (0 \<le> ex \<longrightarrow> n = 100 * m * 2 ^ nat ex)
         \<and> (ex < 0 \<longrightarrow>
               2 * (100 * m) \<le> (2 * n + 1) * 2 ^ nat (- ex)
             \<and> 2 * n * 2 ^ nat (- ex) \<le> 2 * (100 * m) + 2 ^ nat (- ex)
             \<and> (2 * (100 * m) = (2 * n + 1) * 2 ^ nat (- ex)
                  \<or> 2 * n * 2 ^ nat (- ex) = 2 * (100 * m) + 2 ^ nat (- ex) \<longrightarrow> even n))
         \<and> whole \<noteq> [] \<and> (\<forall>c\<in>set whole. isDigit c)
         \<and> (whole = ''0'' \<or> hd whole \<noteq> CHR ''0'')
         \<and> foldl (\<lambda>a c. 10 * a + ((of_char c :: nat) - 48)) 0 whole = n div 100
         \<and> d1 = char_of (48 + n mod 100 div 10)
         \<and> d2 = char_of (48 + n mod 10)"
proof -
  let ?n = "hundredths m ex"
  let ?whole = "Itoa (?n div 100)"
  let ?d1 = "digit_char (?n mod 100 div 10)"
  let ?d2 = "digit_char (?n mod 10)"
  have fin: "is_finite (ExchangeRateReq.Amount rq)" "is_positive (ExchangeRateReq.Amount rq)"
    using assms(2,3) by simp_all
  have pr: "Sprintf_02f (ExchangeRateReq.Amount rq) = ?whole @ ''.'' @ [?d1, ?d2]"
    using assms(2) by (simp add: Let_def)
  have url: "snd (Rate dec request_New e (Some rq)) =
     [\<lparr>Config.Method = ''GET'',
       Config.Url = ''https://b2b.revolut.com/api/1.0/rate?amount=''
          @ ?whole @ ''.'' @ [?d1, ?d2]
          @ ''&from='' @ QueryEscape (ExchangeRateReq.From rq)
          @ ''&to='' @ QueryEscape (ExchangeRateReq.To rq),
       Config.AccessToken = accessToken e,
       Config.Sandbox = ExchangeService.sandbox e,
       Config.Body = Body_nil,
       Config.ContentType = ContentType_unset\<rparr>]"
    using Rate_calls [OF assms(1), of dec request_New rq] QueryEscape_Sprintf_02f [OF fin] pr
    by simp
  have v1: "0 \<le> ex \<longrightarrow> ?n = 100 * m * 2 ^ nat ex"
    by (simp add: hundredths_exact)
  have v2: "ex < 0 \<longrightarrow>
               2 * (100 * m) \<le> (2 * ?n + 1) * 2 ^ nat (- ex)
             \<and> 2 * ?n * 2 ^ nat (- ex) \<le> 2 * (100 * m) + 2 ^ nat (- ex)
             \<and> (2 * (100 * m) = (2 * ?n + 1) * 2 ^ nat (- ex)
                  \<or> 2 * ?n * 2 ^ nat (- ex) = 2 * (100 * m) + 2 ^ nat (- ex) \<longrightarrow> even ?n)"
    using hundredths_nearest [of ex m] hundredths_ties [of ex m] by blast
  have w: "?whole \<noteq> []" "\<forall>c\<in>set ?whole. isDigit c" "?whole = ''0'' \<or> hd ?whole \<noteq> CHR ''0''"
      "foldl (\<lambda>a c. 10 * a + ((of_char c :: nat) - 48)) 0 ?whole = ?n div 100"
    using Itoa_not_Nil Itoa_digits Itoa_canonical Itoa_value by blast+
  have d: "?d1 = char_of (48 + ?n mod 100 div 10)" "?d2 = char_of (48 + ?n mod 10)"
    by (simp_all add: digit_char_def)
  show ?thesis
    apply (rule exI [of _ "hd (snd (Rate dec request_New e (Some rq)))"])
    apply (rule exI [of _ ?whole])
    apply (rule exI [of _ ?d1])
    apply (rule exI [of _ ?d2])
    apply (rule exI [of _ ?n])
    apply (intro conjI)
    using url pr v1 v2 w d apply simp_all
    done
qed

theorem Rate_formats_amount_with_two_decimals_witness:
  "err example_exchange = None
   \<and> ExchangeRateReq.Amount example_rate_req = Finite False 1 0
   \<and> ExchangeRateReq.Amount example_rate_req_eighth = Finite False 1 (- 3)
   \<and> (0::nat) < 1
   \<and> map Config.Url (snd (Rate (\<lambda>b. Inl unexpected_end) (example_transport ''{}'' 200)
                            example_exchange (Some example_rate_req)))
       = [''https://b2b.revolut.com/api/1.0/rate?amount=1.00&from=USD&to=EUR'']
   \<and> map Config.Url (snd (Rate (\<lambda>b. Inl unexpected_end) (example_transport ''{}'' 200)
                            example_exchange (Some example_rate_req_eighth)))
       = [''https://b2b.revolut.com/api/1.0/rate?amount=0.12&from=USD&to=EUR'']"
proof -
  have h: "err example_exchange = None" "(0::nat) < 1"
    by (simp_all add: example_exchange_def)
  have a1: "ExchangeRateReq.Amount example_rate_req = Finite False 1 0"
    by (simp add: example_rate_req_def)
  have a8: "ExchangeRateReq.Amount example_rate_req_eighth = Finite False 1 (- 3)"
    by (simp add: example_rate_req_eighth_def)
  have p1: "Sprintf_02f (ExchangeRateReq.Amount example_rate_req) = ''1.00''"
    unfolding a1 by (simp add: Sprintf_defs)
  have p8: "Sprintf_02f (ExchangeRateReq.Amount example_rate_req_eighth) = ''0.12''"
    unfolding a8 by (simp add: Sprintf_defs)
  have q: "QueryEscape (ExchangeRateReq.From example_rate_req) = ''USD''"
      "QueryEscape (ExchangeRateReq.To example_rate_req) = ''EUR''"
      "QueryEscape (ExchangeRateReq.From example_rate_req_eighth) = ''USD''"
      "QueryEscape (ExchangeRateReq.To example_rate_req_eighth) = ''EUR''"
    by (simp_all add: example_rate_req_def example_rate_req_eighth_def shouldEscape_def)
  from Rate_formats_amount_with_two_decimals [OF h(1) a1 h(2), of "\<lambda>b. Inl unexpected_end"
         "example_transport ''{}'' 200"]
  have u1: "map Config.Url (snd (Rate (\<lambda>b. Inl unexpected_end) (example_transport ''{}'' 200)
                            example_exchange (Some example_rate_req)))
       = [''https://b2b.revolut.com/api/1.0/rate?amount=1.00&from=USD&to=EUR'']"
    using p1 q by (auto simp del: Sprintf_02f.simps)
  from Rate_formats_amount_with_two_decimals [OF h(1) a8 h(2), of "\<lambda>b. Inl unexpected_end"
         "example_transport ''{}'' 200"]
  have u8: "map Config.Url (snd (Rate (\<lambda>b. Inl unexpected_end) (example_transport ''{}'' 200)
                            example_exchange (Some example_rate_req_eighth)))
       = [''https://b2b.revolut.com/api/1.0/rate?amount=0.12&from=USD&to=EUR'']"
    using p8 q by (auto simp del: Sprintf_02f.simps)
  show ?thesis using h a1 a8 u1 u8 by simp
qed

text \<open>
  The claim as it stands, for every positive amount, fails at positive infinity, which is
  a positive \<open>float64\<close>: it is printed as \<open>+Inf\<close> and sent as \<open>%2BInf\<close>, with no
  decimal point at all.
\<close>

theorem Rate_formats_amount_with_two_decimals_counterexample:
  "is_positive (ExchangeRateReq.Amount example_rate_req_infinite)
   \<and> map Config.Url (snd (Rate (\<lambda>b. Inl unexpected_end) (example_transport ''{}'' 200)
                            example_exchange (Some example_rate_req_infinite)))
       = [''https://b2b.revolut.com/api/1.0/rate?amount=%2BInf&from=USD&to=EUR'']
   \<and> CHR ''.'' \<notin> set (Sprintf_02f (ExchangeRateReq.Amount example_rate_req_infinite))"
  by (simp add: Rate_calls example_exchange_def example_rate_req_infinite_def shouldEscape_def
        upperhex_def)

text \<open>
  Claim C6. The comment on \<open>ExchangeRateReq.Amount\<close> promises a default of 1.00, but
  \<open>Rate\<close> prints the field as it is: a request whose amount was left at the zero value
  goes out with \<open>amount=0.00\<close>.
\<close>

theorem Rate_sends_0_00_for_an_unset_amount:
  "map Config.Url
     (snd (Rate dec request_New \<lparr>accessToken = ''token'', sandbox = False, err = None\<rparr>
             (Some \<lparr>ExchangeRateReq.From = ''USD'', ExchangeRateReq.To = ''EUR'',
                    ExchangeRateReq.Amount = float64_zero\<rparr>)))
   = [''https://b2b.revolut.com/api/1.0/rate?amount=0.00&from=USD&to=EUR'']"
  by (simp add: Rate_calls Sprintf_02f_zero shouldEscape_def)

text \<open>
  Claim C7. \<open>Rate\<close>, \<open>Exchange\<close>, \<open>ExchangeAuthorisationCode\<close> and
  \<open>RefreshAccessToken\<close> pass the service's sandbox flag on
  (\<open>sandbox_flag_reaches_the_transport\<close>); \<open>GetAuthorisationCode\<close> leaves the field
  out of its \<open>Config\<close>, so a service built for the sandbox calls the transport with the
  flag unset.
\<close>

theorem GetAuthorisationCode_never_sets_the_sandbox_flag:
  "map Config.Sandbox
     (snd (GetAuthorisationCode request_New (NewOAuth ''app'' key ''example.com'' True)
             ''app'' ''https://example.com/cb''))
   = [False]"
  by (simp add: GetAuthorisationCode_def Let_def split: sum.splits prod.splits)

text \<open>
  Claim C8. The format string of \<open>GetAuthorisationCode\<close> has \<open>redirect_uri%s\<close>, without
  the equals sign: the redirect URI is appended to the parameter's name instead of being
  its value.
\<close>

theorem GetAuthorisationCode_url_has_no_equals_sign:
  "map Config.Url
     (snd (GetAuthorisationCode request_New oa ''abc'' ''https://example.com/cb''))
   = [''https://business.revolut.com/app-confirm?client_id=abc&redirect_urihttps://example.com/cb'']"
  by (simp add: GetAuthorisationCode_def Let_def split: sum.splits prod.splits)

text \<open>
  Claim C9. \<open>RefreshAccessToken\<close> is \<open>ExchangeAuthorisationCode\<close> (with any code) run
  against a transport that sees the request with \<open>grant_type\<close> set to
  \<open>refresh_token\<close> and the field \<open>code\<close> replaced by the field \<open>refresh_token\<close>
  carrying the token: same result, same number of calls, and the request differs in these
  two form fields only.
\<close>

theorem RefreshAccessToken_is_ExchangeAuthorisationCode_with_two_fields_changed:
  "RefreshAccessToken J request_New oa refreshToken
     = RefreshAccessToken_spec J request_New oa refreshToken code"
  by (simp add: RefreshAccessToken_def RefreshAccessToken_spec_def ExchangeAuthorisationCode_def
        refresh_for_code_def Let_def grant_type_refresh_token_def grant_type_authorization_code_def
        clientAssertionType_def
      split: sum.splits prod.splits)

text \<open>
  Claim C10. A service without stored error hands an exchange order to the transport as a
  JSON body; when both amounts are finite the body is an object with the members \<open>from\<close>,
  \<open>to\<close>, \<open>reference\<close>, \<open>request_id\<close>, and each side has a member \<open>amount\<close> exactly
  when its amount is not zero. A side whose amount is zero goes out as the same bytes as
  that side with the amount left unset.
\<close>

theorem Exchange_omits_a_zero_amount:
  assumes "err e = None"
      and "is_finite (ExchangeAmount.Amount (ExchangeReq.From rq))"
      and "is_finite (ExchangeAmount.Amount (ExchangeReq.To rq))"
  shows "\<exists>cfg f t.
           snd (Exchange dec request_New e (Some rq)) = [cfg]
         \<and> wire_json FormatFloat cfg =
             Some (Inr (JObject [(''from'', JObject f), (''to'', JObject t),
                                 (''reference'', JString (Reference rq)),
                                 (''request_id'', JString (RequestId rq))]))
         \<and> (''amount'' \<in> fst ` set f) = (\<not> equals_zero (ExchangeAmount.Amount (ExchangeReq.From rq)))
         \<and> (''amount'' \<in> fst ` set t) = (\<not> equals_zero (ExchangeAmount.Amount (ExchangeReq.To rq)))
         \<and> (equals_zero (ExchangeAmount.Amount (ExchangeReq.From rq)) \<longrightarrow>
              wire_json FormatFloat cfg =
                Some (json_Marshal_ExchangeReq FormatFloat
                  (Some (rq\<lparr>ExchangeReq.From :=
                             (ExchangeReq.From rq)\<lparr>ExchangeAmount.Amount := float64_zero\<rparr>\<rparr>))))
         \<and> (equals_zero (ExchangeAmount.Amount (ExchangeReq.To rq)) \<longrightarrow>
              wire_json FormatFloat cfg =
                Some (json_Marshal_ExchangeReq FormatFloat
                  (Some (rq\<lparr>ExchangeReq.To :=
                             (ExchangeReq.To rq)\<lparr>ExchangeAmount.Amount := float64_zero\<rparr>\<rparr>))))"
proof -
  let ?cfg = "\<lparr>Config.Method = http_MethodPost,
               Config.Url = ''https://b2b.revolut.com/api/1.0/exchange'',
               Config.AccessToken = accessToken e,
               Config.Sandbox = ExchangeService.sandbox e,
               Config.Body = Body_ExchangeReq (Some rq),
               Config.ContentType = ContentType_APPLICATION_JSON\<rparr>"
  have calls: "snd (Exchange dec request_New e (Some rq)) = [?cfg]"
    using assms(1) by (simp add: Exchange_def Let_def split: sum.splits prod.splits)
  have wire: "wire_json FormatFloat ?cfg = Some (json_Marshal_ExchangeReq FormatFloat (Some rq))"
    by (simp add: wire_json_def)
  obtain f where f: "json_Marshal_ExchangeAmount FormatFloat (ExchangeReq.From rq) = Inr (JObject f)"
      "(''amount'' \<in> fst ` set f) = (\<not> equals_zero (ExchangeAmount.Amount (ExchangeReq.From rq)))"
    using json_Marshal_ExchangeAmount_finite [OF assms(2)] by blast
  obtain t where t: "json_Marshal_ExchangeAmount FormatFloat (ExchangeReq.To rq) = Inr (JObject t)"
      "(''amount'' \<in> fst ` set t) = (\<not> equals_zero (ExchangeAmount.Amount (ExchangeReq.To rq)))"
    using json_Marshal_ExchangeAmount_finite [OF assms(3)] by blast
  have body: "json_Marshal_ExchangeReq FormatFloat (Some rq) =
      Inr (JObject [(''from'', JObject f), (''to'', JObject t),
                    (''reference'', JString (Reference rq)),
                    (''request_id'', JString (RequestId rq))])"
    using f(1) t(1) by (simp add: json_Marshal_ExchangeReq_def)
  have zf: "json_Marshal_ExchangeReq FormatFloat
              (Some (rq\<lparr>ExchangeReq.From :=
                         (ExchangeReq.From rq)\<lparr>ExchangeAmount.Amount := float64_zero\<rparr>\<rparr>))
            = json_Marshal_ExchangeReq FormatFloat (Some rq)"
    if "equals_zero (ExchangeAmount.Amount (ExchangeReq.From rq))"
    using that by (simp add: json_Marshal_ExchangeReq_def json_Marshal_ExchangeAmount_def
                     float64_zero_def)
  have zt: "json_Marshal_ExchangeReq FormatFloat
              (Some (rq\<lparr>ExchangeReq.To :=
                         (ExchangeReq.To rq)\<lparr>ExchangeAmount.Amount := float64_zero\<rparr>\<rparr>))
            = json_Marshal_ExchangeReq FormatFloat (Some rq)"
    if "equals_zero (ExchangeAmount.Amount (ExchangeReq.To rq))"
    using that by (simp add: json_Marshal_ExchangeReq_def json_Marshal_ExchangeAmount_def
                     float64_zero_def)
  show ?thesis
    using calls wire body f(2) t(2) zf zt by (intro exI [of _ ?cfg] exI [of _ f] exI [of _ t]) simp
qed

theorem Exchange_omits_a_zero_amount_witness:
  "err example_exchange = None
   \<and> is_finite (ExchangeAmount.Amount (ExchangeReq.From example_order))
   \<and> is_finite (ExchangeAmount.Amount (ExchangeReq.To example_order))
   \<and> (\<exists>cfg. snd (Exchange (\<lambda>b. Inl unexpected_end) (example_transport ''{}'' 200)
                    example_exchange (Some example_order)) = [cfg]
         \<and> wire_json (\<lambda>x. ''10'') cfg =
             Some (Inr (JObject
               [(''from'', JObject [(''account_id'', JString ''acc-1''),
                                    (''currency'', JString ''USD'')]),
                (''to'', JObject [(''account_id'', JString ''acc-2''),
                                  (''amount'', JNumber ''10''),
                                  (''currency'', JString ''EUR'')]),
                (''reference'', JString ''ref''),
                (''request_id'', JString ''req-1'')])))"
proof -
  have h: "err example_exchange = None"
      "is_finite (ExchangeAmount.Amount (ExchangeReq.From example_order))"
      "is_finite (ExchangeAmount.Amount (ExchangeReq.To example_order))"
    by (simp_all add: example_exchange_def example_order_def float64_zero_def)
  have m: "json_Marshal_ExchangeReq (\<lambda>x. ''10'') (Some example_order) =
      Inr (JObject
               [(''from'', JObject [(''account_id'', JString ''acc-1''),
                                    (''currency'', JString ''USD'')]),
                (''to'', JObject [(''account_id'', JString ''acc-2''),
                                  (''amount'', JNumber ''10''),
                                  (''currency'', JString ''EUR'')]),
                (''reference'', JString ''ref''),
                (''request_id'', JString ''req-1'')])"
    by (simp add: json_Marshal_ExchangeReq_def json_Marshal_ExchangeAmount_def example_order_def
          float64_zero_def)
  have z: "equals_zero (ExchangeAmount.Amount (ExchangeReq.From example_order))"
    by (simp add: example_order_def float64_zero_def)
  have same: "example_order\<lparr>ExchangeReq.From :=
                (ExchangeReq.From example_order)\<lparr>ExchangeAmount.Amount := float64_zero\<rparr>\<rparr>
              = example_order"
    by (simp add: example_order_def)
  from Exchange_omits_a_zero_amount [OF h, of "\<lambda>b. Inl unexpected_end"
         "example_transport ''{}'' 200" "\<lambda>x. ''10''"]
  obtain cfg where
    "snd (Exchange (\<lambda>b. Inl unexpected_end) (example_transport ''{}'' 200)
            example_exchange (Some example_order)) = [cfg]"
    "wire_json (\<lambda>x. ''10'') cfg = Some (json_Marshal_ExchangeReq (\<lambda>x. ''10'') (Some example_order))"
    using z same by auto
  then show ?thesis using h m by simp
qed

end
